theory Spec2Isabelle
  imports Main "HOL-Library.Word" "HOL-Library.Char_ord" "HOL-Library.List_Lexorder"
begin

section \<open>The tail of one container's log stream (stern/tail.go)\<close>

text \<open>
  A shallow embedding of \<^verbatim>\<open>stern/tail.go\<close>: the line codec (\<^verbatim>\<open>splitLogLine\<close>,
  \<^verbatim>\<open>removeSubsecond\<close>), the resume tracker (\<^verbatim>\<open>rememberLastTimestamp\<close>,
  \<^verbatim>\<open>shouldSkip\<close>, \<^verbatim>\<open>GetResumeRequest\<close>) and the tail itself (\<^verbatim>\<open>consumeLine\<close>,
  \<^verbatim>\<open>ConsumeRequest\<close>, \<^verbatim>\<open>Start\<close>, \<^verbatim>\<open>Resume\<close>).

  Go strings are byte strings: \<^typ>\<open>string\<close> here, one \<^typ>\<open>char\<close> per byte. Go's \<^verbatim>\<open>int\<close>
  is the 64-bit signed integer of the amd64 and arm64 builds: a \<^typ>\<open>64 word\<close> read
  through \<^const>\<open>sint\<close>, so that \<^verbatim>\<open>++\<close> and \<^verbatim>\<open>--\<close> wrap as they do in Go. A pointer that
  may be nil is an \<^typ>\<open>'a option\<close>. A method that mutates its receiver returns the new
  receiver. What the tail writes (to \<^verbatim>\<open>out\<close>, to \<^verbatim>\<open>errOut\<close>, to the cluster API and to
  the OpenTelemetry exporter) is appended to a list of effects kept in the tail.
\<close>

subsection \<open>Values of the Go runtime and of the libraries\<close>

type_synonym go_int = "64 word"

type_synonym int64 = "64 word"

text \<open>A \<^verbatim>\<open>time.Time\<close>, as nanoseconds since the epoch.\<close>

type_synonym time = int

text \<open>
  A Go \<^verbatim>\<open>error\<close>: the two sentinel values the tail compares with (\<^verbatim>\<open>io.EOF\<close>,
  \<^verbatim>\<open>context.Canceled\<close>), and any other error with its message.
\<close>

datatype go_error = EOF | Canceled | Err string

fun Error :: "go_error \<Rightarrow> string" where
  "Error EOF = ''EOF''"
| "Error Canceled = ''context canceled''"
| "Error (Err msg) = msg"

datatype panic = NilPointerDereference

text \<open>A \<^verbatim>\<open>*color.Color\<close>, as the function its \<^verbatim>\<open>SprintFunc\<close> returns.\<close>

type_synonym Color = "string \<Rightarrow> string"

text \<open>\<^verbatim>\<open>"\n"\<close> and the separator \<^verbatim>\<open>" \<close>U+203A\<^verbatim>\<open> "\<close> of the start banner, in UTF-8.\<close>

definition newline :: string where
  "newline = [CHR 0x0A]"

definition arrow :: string where
  "arrow = [CHR '' '', CHR 0xE2, CHR 0x80, CHR 0xBA, CHR '' '']"

text \<open>
  \<^verbatim>\<open>strings.IndexRune(s, r)\<close> for a rune \<^verbatim>\<open>r\<close> below \<^verbatim>\<open>utf8.RuneSelf\<close> (the two calls of
  the file pass \<^verbatim>\<open>' '\<close> and \<^verbatim>\<open>'.'\<close>): the index of the first byte equal to \<^verbatim>\<open>r\<close>.
  \<^const>\<open>None\<close> stands for Go's \<^verbatim>\<open>-1\<close>.
\<close>

fun IndexRune :: "string \<Rightarrow> char \<Rightarrow> nat option" where
  "IndexRune [] r = None"
| "IndexRune (b # s) r = (if b = r then Some 0 else map_option Suc (IndexRune s r))"

text \<open>
  \<^verbatim>\<open>unicode.IsDigit(rune(b))\<close> for a byte \<^verbatim>\<open>b\<close>: below \<^verbatim>\<open>unicode.MaxLatin1\<close> the only
  decimal digits are \<^verbatim>\<open>'0'\<close> to \<^verbatim>\<open>'9'\<close>.
\<close>

definition IsDigit :: "char \<Rightarrow> bool" where
  "IsDigit r = (48 \<le> (of_char r :: nat) \<and> (of_char r :: nat) \<le> 57)"

text \<open>\<^verbatim>\<open>strings.TrimSuffix(s, suffix)\<close>.\<close>

definition TrimSuffix :: "string \<Rightarrow> string \<Rightarrow> string" where
  "TrimSuffix s suffix =
     (if length suffix \<le> length s \<and> drop (length s - length suffix) s = suffix
      then take (length s - length suffix) s else s)"

subsection \<open>The line codec\<close>

text \<open>
  \<^verbatim>\<open>splitLogLine\<close>: the line up to its first space and the line after it, or the error
  \<^verbatim>\<open>missing timestamp\<close>.
\<close>

definition splitLogLine :: "string \<Rightarrow> go_error + (string \<times> string)" where
  "splitLogLine line =
     (case IndexRune line (CHR '' '') of
        None \<Rightarrow> Inl (Err ''missing timestamp'')
      | Some idx \<Rightarrow> Inr (take idx line, drop (idx + 1) line))"

text \<open>
  The loop of \<^verbatim>\<open>removeSubsecond\<close>,
  \<^verbatim>\<open>for i := dot; i < len(timestamp); i++ { if unicode.IsDigit(rune(timestamp[i])) { last = i } }\<close>,
  with the loop variable \<^verbatim>\<open>i\<close> and the running value of \<^verbatim>\<open>last\<close> (here \<open>last_i\<close>) as
  arguments. Nothing ends the loop before the end of the string. The indices are those of
  a string in memory, far below the range of Go's \<^verbatim>\<open>int\<close>: natural numbers.
\<close>

function removeSubsecond_loop :: "string \<Rightarrow> nat \<Rightarrow> nat \<Rightarrow> nat" where
  "removeSubsecond_loop timestamp i last_i =
     (if i < length timestamp
      then removeSubsecond_loop timestamp (i + 1) (if IsDigit (timestamp ! i) then i else last_i)
      else last_i)"
  by pat_completeness auto
termination
  by (relation "measure (\<lambda>(timestamp, i, last_i). length timestamp - i)") auto

declare removeSubsecond_loop.simps [simp del]

definition removeSubsecond :: "string \<Rightarrow> string" where
  "removeSubsecond timestamp =
     (case IndexRune timestamp (CHR ''.'') of
        None \<Rightarrow> timestamp
      | Some dot \<Rightarrow>
          (let last_i = removeSubsecond_loop timestamp dot 0 in
           if last_i = 0 then timestamp
           else take dot timestamp @ drop (last_i + 1) timestamp))"

subsection \<open>The data of a tail\<close>

text \<open>The anonymous struct \<^verbatim>\<open>Tail.last\<close>: the watermark.\<close>

record Last =
  timestamp :: string
  lines :: go_int

record ResumeRequest =
  Timestamp :: string
  LinesToSkip :: go_int

text \<open>The fields of \<^verbatim>\<open>corev1.Pod\<close> that the tail reads.\<close>

record Pod =
  Namespace :: string
  Name :: string
  NodeName :: string
  Labels :: "string \<rightharpoonup> string"
  Annotations :: "string \<rightharpoonup> string"

text \<open>
  \<^verbatim>\<open>TailOptions\<close> is declared outside the sources at hand. Its fields are the ones
  \<^verbatim>\<open>tail.go\<close> reads and writes; its four methods, which depend on the include, exclude
  and highlight patterns and on the timestamp format, are parameters: function-valued
  fields.
\<close>

record TailOptions =
  Timestamps :: bool
  Follow :: bool
  SinceSeconds :: "int64 option"
  SinceTime :: "time option"
  TailLines :: "int64 option"
  OnlyLogLines :: bool
  Namespace_opt :: bool
  IsExclude :: "string \<Rightarrow> bool"
  IsInclude :: "string \<Rightarrow> bool"
  HighlightMatchedString :: "string \<Rightarrow> string"
  UpdateTimezoneAndFormat :: "string \<Rightarrow> go_error + string"

text \<open>The \<^verbatim>\<open>corev1.PodLogOptions\<close> that \<^verbatim>\<open>Start\<close> sends.\<close>

record PodLogOptions =
  Follow_req :: bool
  Timestamps_req :: bool
  Container_req :: string
  SinceSeconds_req :: "int64 option"
  SinceTime_req :: "time option"
  TailLines_req :: "int64 option"

text \<open>The view model \<^verbatim>\<open>Log\<close> handed to the template.\<close>

record Log =
  Message :: string
  NodeName_Log :: string
  Namespace_Log :: string
  PodName_Log :: string
  ContainerName_Log :: string
  Labels_Log :: "string \<rightharpoonup> string"
  Annotations_Log :: "string \<rightharpoonup> string"
  PodColor :: Color
  ContainerColor :: Color

text \<open>\<^verbatim>\<open>otel.LogRecord\<close> (stern/otel/transformer.go).\<close>

record LogRecord =
  Timestamp_rec :: time
  Body :: string
  Namespace_rec :: string
  PodName_rec :: string
  ContainerName_rec :: string
  NodeName_rec :: string
  Labels_rec :: "string \<rightharpoonup> string"
  Annotations_rec :: "string \<rightharpoonup> string"

text \<open>
  What a tail does to the world, in the order it does it: \<^verbatim>\<open>fmt.Fprint(t.out, s)\<close>,
  \<^verbatim>\<open>fmt.Fprintf(t.errOut, ...)\<close> with the formatted text, the \<^verbatim>\<open>GetLogs\<close> request to
  the pod of a namespace, and \<^verbatim>\<open>otel.EmitLog\<close> of a record.
\<close>

datatype effect =
    Out string
  | ErrOut string
  | GetLogs string string PodLogOptions
  | EmitLog LogRecord

text \<open>
  \<^verbatim>\<open>Tail\<close>. The field \<^verbatim>\<open>last\<close> is \<open>last_seen\<close> here, \<open>last\<close> being a function on lists.
  The template is the function \<^verbatim>\<open>tmpl.Execute\<close> computes from the view model;
  \<^verbatim>\<open>otelExporter\<close> is a pointer the tail only tests for nil; \<^verbatim>\<open>out\<close> and \<^verbatim>\<open>errOut\<close> are
  the effects written to them. The client set is the field \<open>Stream\<close> of the
  surroundings below; the channel \<^verbatim>\<open>closed\<close>, which cancels the context of a running
  \<^verbatim>\<open>Start\<close>, shows only as the error \<^verbatim>\<open>context.Canceled\<close> of a read.
\<close>

record Tail =
  Pod :: Pod
  ContainerName :: string
  Options :: TailOptions
  podColor :: Color
  containerColor :: Color
  tmpl :: "Log \<Rightarrow> go_error + string"
  last_seen :: Last
  resumeRequest :: "ResumeRequest option"
  otelExporter :: "unit option"
  otelEnabled :: bool
  effects :: "effect list"

text \<open>
  The answer of \<^verbatim>\<open>request.Stream\<close> once opened, as the read loop sees it: the results of
  the calls of \<^verbatim>\<open>ReadBytes('\n')\<close> that return no error, then the one that returns
  an error. Each read comes with the reading of the clock (\<^verbatim>\<open>time.Now()\<close>) at the moment
  its line is consumed.
\<close>

record stream =
  reads :: "(string \<times> time) list"
  final_read :: "string \<times> time"
  final_err :: go_error

text \<open>
  What the tail takes from its surroundings: \<^verbatim>\<open>time.Parse\<close> with the layouts
  \<^verbatim>\<open>time.RFC3339\<close> and \<^verbatim>\<open>time.RFC3339Nano\<close>, the colour of the start banner's plus
  sign, and the cluster's answer to a \<^verbatim>\<open>GetLogs\<close> request (a \<open>stream\<close> as above, or
  the error of opening it).
\<close>

record env =
  ParseRFC3339 :: "string \<Rightarrow> go_error + time"
  ParseRFC3339Nano :: "string \<Rightarrow> go_error + time"
  hiGreenBold :: Color
  Stream :: "string \<Rightarrow> string \<Rightarrow> PodLogOptions \<Rightarrow> go_error + stream"

text \<open>
  \<^verbatim>\<open>NewTail\<close>. The two colours are what \<^verbatim>\<open>determineColor\<close> picks from the palette
  \<^verbatim>\<open>colorList\<close>, which is declared outside the sources at hand: they are parameters.
  The fields the struct literal leaves out have Go's zero values.
\<close>

definition NewTail ::
  "Pod \<Rightarrow> string \<Rightarrow> (Log \<Rightarrow> go_error + string) \<Rightarrow> TailOptions \<Rightarrow> Color \<Rightarrow> Color \<Rightarrow>
   unit option \<Rightarrow> bool \<Rightarrow> Tail" where
  "NewTail pod containerName tmpl' options podColor' containerColor' otelExporter' otelEnabled' =
     \<lparr>Pod = pod, ContainerName = containerName, Options = options,
      podColor = podColor', containerColor = containerColor', tmpl = tmpl',
      last_seen = \<lparr>timestamp = [], lines = 0\<rparr>, resumeRequest = None,
      otelExporter = otelExporter', otelEnabled = otelEnabled', effects = []\<rparr>"

subsection \<open>Printing\<close>

definition Fprint_out :: "Tail \<Rightarrow> string \<Rightarrow> Tail" where
  "Fprint_out t s = t\<lparr>effects := effects t @ [Out s]\<rparr>"

definition Fprint_errOut :: "Tail \<Rightarrow> string \<Rightarrow> Tail" where
  "Fprint_errOut t s = t\<lparr>effects := effects t @ [ErrOut s]\<rparr>"

definition printStarting :: "env \<Rightarrow> Tail \<Rightarrow> Tail" where
  "printStarting e t =
     (if \<not> OnlyLogLines (Options t) \<and> \<not> otelEnabled t then
        (let g = hiGreenBold e; p = podColor t; c = containerColor t in
         if Namespace_opt (Options t)
         then Fprint_errOut t
                (g ''+'' @ '' '' @ p (Namespace (Pod t)) @ '' '' @ p (Name (Pod t)) @ arrow @
                 c (ContainerName t) @ newline)
         else Fprint_errOut t
                (g ''+'' @ '' '' @ p (Name (Pod t)) @ arrow @ c (ContainerName t) @ newline))
      else t)"

definition sprint :: "Tail \<Rightarrow> string \<Rightarrow> go_error + string" where
  "sprint t msg =
     (let vm = \<lparr>Message = msg, NodeName_Log = NodeName (Pod t), Namespace_Log = Namespace (Pod t),
                PodName_Log = Name (Pod t), ContainerName_Log = ContainerName t,
                Labels_Log = Labels (Pod t), Annotations_Log = Annotations (Pod t),
                PodColor = podColor t, ContainerColor = containerColor t\<rparr>
      in case tmpl t vm of
           Inl err \<Rightarrow> Inl (Err (''expanding template failed: '' @ Error err))
         | Inr buf \<Rightarrow> Inr buf)"

definition Print :: "Tail \<Rightarrow> string \<Rightarrow> Tail" where
  "Print t msg =
     (case sprint t msg of
        Inl err \<Rightarrow> Fprint_errOut t (Error err @ newline)
      | Inr buf \<Rightarrow> Fprint_out t (HighlightMatchedString (Options t) buf))"

definition PrintWithoutHighlight :: "Tail \<Rightarrow> string \<Rightarrow> Tail" where
  "PrintWithoutHighlight t msg =
     (case sprint t msg of
        Inl err \<Rightarrow> Fprint_errOut t (Error err @ newline)
      | Inr buf \<Rightarrow> Fprint_out t buf)"

definition emitOTelLog :: "Tail \<Rightarrow> string \<Rightarrow> time \<Rightarrow> Tail" where
  "emitOTelLog t message ts =
     t\<lparr>effects := effects t @
        [EmitLog \<lparr>Timestamp_rec = ts, Body = message, Namespace_rec = Namespace (Pod t),
                  PodName_rec = Name (Pod t), ContainerName_rec = ContainerName t,
                  NodeName_rec = NodeName (Pod t), Labels_rec = Labels (Pod t),
                  Annotations_rec = Annotations (Pod t)\<rparr>]\<rparr>"

subsection \<open>The resume tracker\<close>

definition rememberLastTimestamp :: "Tail \<Rightarrow> string \<Rightarrow> Tail" where
  "rememberLastTimestamp t ts =
     (if timestamp (last_seen t) = ts
      then t\<lparr>last_seen := (last_seen t)\<lparr>lines := lines (last_seen t) + 1\<rparr>\<rparr>
      else t\<lparr>last_seen := \<lparr>timestamp = ts, lines = 1\<rparr>\<rparr>)"

definition GetResumeRequest :: "Tail \<Rightarrow> ResumeRequest option" where
  "GetResumeRequest t =
     (if timestamp (last_seen t) = [] then None
      else Some \<lparr>Timestamp = timestamp (last_seen t), LinesToSkip = lines (last_seen t)\<rparr>)"

text \<open>
  \<^verbatim>\<open>shouldSkip\<close> has a pointer receiver that may be nil and that it decrements in place:
  the result is the answer together with the receiver after the call.
\<close>

definition shouldSkip :: "ResumeRequest option \<Rightarrow> string \<Rightarrow> bool \<times> ResumeRequest option" where
  "shouldSkip r ts =
     (case r of
        None \<Rightarrow> (False, None)
      | Some rr \<Rightarrow>
          if Timestamp rr = [] then (False, Some rr)
          else if Timestamp rr \<noteq> ts then (False, Some rr)
          else if sint (LinesToSkip rr) \<le> 0 then (False, Some rr)
          else (True, Some (rr\<lparr>LinesToSkip := LinesToSkip rr - 1\<rparr>)))"

definition sinceTime :: "env \<Rightarrow> ResumeRequest \<Rightarrow> go_error + time" where
  "sinceTime e r =
     (case ParseRFC3339 e (Timestamp r) of
        Inl err \<Rightarrow> Inl err
      | Inr metaTime \<Rightarrow> Inr metaTime)"

subsection \<open>The tail\<close>

text \<open>
  \<^verbatim>\<open>consumeLine\<close>, with the reading \<open>now\<close> of the clock that \<^verbatim>\<open>time.Now()\<close> would
  return while this line is consumed.
\<close>

definition consumeLine :: "env \<Rightarrow> time \<Rightarrow> Tail \<Rightarrow> string \<Rightarrow> Tail" where
  "consumeLine e now t line =
     (case splitLogLine line of
        Inl err \<Rightarrow> PrintWithoutHighlight t (''['' @ Error err @ ''] '' @ line)
      | Inr (rfc3339Nano, content) \<Rightarrow>
          (let rfc3339 = removeSubsecond rfc3339Nano;
               t1 = rememberLastTimestamp t rfc3339;
               (skip, r) = shouldSkip (resumeRequest t1) rfc3339;
               t2 = t1\<lparr>resumeRequest := r\<rparr>
           in if skip then t2
              else if IsExclude (Options t2) content \<or> \<not> IsInclude (Options t2) content then t2
              else
                (let ts = (case ParseRFC3339Nano e rfc3339Nano of Inl parseErr \<Rightarrow> now | Inr tm \<Rightarrow> tm);
                     t3 = (if otelEnabled t2 \<and> otelExporter t2 \<noteq> None
                           then emitOTelLog t2 content ts else t2)
                 in if Timestamps (Options t3) then
                      (case UpdateTimezoneAndFormat (Options t3) rfc3339Nano of
                         Inl err \<Rightarrow> PrintWithoutHighlight t3 (''['' @ Error err @ ''] '' @ line)
                       | Inr updatedTs \<Rightarrow>
                           (if \<not> otelEnabled t3 then Print t3 (updatedTs @ '' '' @ content)
                            else t3))
                    else if \<not> otelEnabled t3 then Print t3 content
                    else t3)))"

text \<open>
  The statements of \<^verbatim>\<open>consumeLine\<close> that follow the resume-skip decision (the filters, the
  export and the printing), as a function of the tail \<open>t2\<close> that the decision left: what
  \<^verbatim>\<open>consumeLine\<close> does with a line it has not skipped (\<open>consumeLine_unfold\<close> below).
\<close>

definition consumeLine_unskipped ::
  "env \<Rightarrow> time \<Rightarrow> Tail \<Rightarrow> string \<Rightarrow> string \<Rightarrow> string \<Rightarrow> Tail" where
  "consumeLine_unskipped e now t2 line rfc3339Nano content =
     (if IsExclude (Options t2) content \<or> \<not> IsInclude (Options t2) content then t2
      else
        (let ts = (case ParseRFC3339Nano e rfc3339Nano of Inl parseErr \<Rightarrow> now | Inr tm \<Rightarrow> tm);
             t3 = (if otelEnabled t2 \<and> otelExporter t2 \<noteq> None
                   then emitOTelLog t2 content ts else t2)
         in if Timestamps (Options t3) then
              (case UpdateTimezoneAndFormat (Options t3) rfc3339Nano of
                 Inl err \<Rightarrow> PrintWithoutHighlight t3 (''['' @ Error err @ ''] '' @ line)
               | Inr updatedTs \<Rightarrow>
                   (if \<not> otelEnabled t3 then Print t3 (updatedTs @ '' '' @ content)
                    else t3))
            else if \<not> otelEnabled t3 then Print t3 content
            else t3))"

text \<open>
  The read loop of \<^verbatim>\<open>ConsumeRequest\<close>: every read that brought bytes is consumed with
  its trailing newline cut off; the loop ends at the read that returns an error, with
  that error unless it is \<^verbatim>\<open>io.EOF\<close>.
\<close>

definition consumeRead :: "env \<Rightarrow> Tail \<Rightarrow> string \<times> time \<Rightarrow> Tail" where
  "consumeRead e t rd =
     (if length (fst rd) \<noteq> 0 then consumeLine e (snd rd) t (TrimSuffix (fst rd) newline) else t)"

definition ConsumeRequest :: "env \<Rightarrow> Tail \<Rightarrow> go_error + stream \<Rightarrow> go_error option \<times> Tail" where
  "ConsumeRequest e t request =
     (case request of
        Inl err \<Rightarrow> (Some err, t)
      | Inr s \<Rightarrow>
          (let t' = consumeRead e (foldl (consumeRead e) t (reads s)) (final_read s)
           in (if final_err s \<noteq> EOF then Some (final_err s) else None, t')))"

definition Start :: "env \<Rightarrow> Tail \<Rightarrow> go_error option \<times> Tail" where
  "Start e t =
     (let t1 = printStarting e t;
          req = \<lparr>Follow_req = Follow (Options t1), Timestamps_req = True,
                 Container_req = ContainerName t1, SinceSeconds_req = SinceSeconds (Options t1),
                 SinceTime_req = SinceTime (Options t1), TailLines_req = TailLines (Options t1)\<rparr>;
          t2 = t1\<lparr>effects := effects t1 @ [GetLogs (Namespace (Pod t1)) (Name (Pod t1)) req]\<rparr>;
          (err, t3) = ConsumeRequest e t2 (Stream e (Namespace (Pod t1)) (Name (Pod t1)) req)
      in if err = Some Canceled then (None, t3) else (err, t3))"

text \<open>
  \<^verbatim>\<open>Resume\<close>. A nil request panics at \<^verbatim>\<open>r.Timestamp\<close> in \<^verbatim>\<open>sinceTime\<close>.
\<close>

definition Resume :: "env \<Rightarrow> Tail \<Rightarrow> ResumeRequest option \<Rightarrow> panic + (go_error option \<times> Tail)" where
  "Resume e t request =
     (case request of
        None \<Rightarrow> Inl NilPointerDereference
      | Some r \<Rightarrow>
          (case sinceTime e r of
             Inl err \<Rightarrow>
               Inr (Start e (Fprint_errOut t
                      (''failed to resume: '' @ Error err @ '', fallback to Start()'' @ newline)))
           | Inr since \<Rightarrow>
               Inr (Start e (t\<lparr>resumeRequest := Some r,
                                Options := (Options t)\<lparr>SinceTime := Some since,
                                                         SinceSeconds := None,
                                                         TailLines := None\<rparr>\<rparr>))))"

subsection \<open>Sequences of lines\<close>

text \<open>
  The answers of \<^verbatim>\<open>shouldSkip\<close> along the canonical timestamps of successive lines, each
  call on the request as the call before left it: the calls \<^verbatim>\<open>consumeLine\<close> makes on the
  one request a tail holds.
\<close>

fun shouldSkip_seq :: "ResumeRequest option \<Rightarrow> string list \<Rightarrow> bool list \<times> ResumeRequest option" where
  "shouldSkip_seq r [] = ([], r)"
| "shouldSkip_seq r (ts # tss) =
     (let (skip, r') = shouldSkip r ts;
          (skips, r'') = shouldSkip_seq r' tss
      in (skip # skips, r''))"

text \<open>
  The timestamp the watermark holds after each call of \<^verbatim>\<open>rememberLastTimestamp\<close>, for the
  canonical timestamps of successive lines.
\<close>

primrec stored_timestamps :: "Tail \<Rightarrow> string list \<Rightarrow> string list" where
  "stored_timestamps t [] = []"
| "stored_timestamps t (ts # tss) =
     timestamp (last_seen (rememberLastTimestamp t ts)) #
     stored_timestamps (rememberLastTimestamp t ts) tss"

subsection \<open>Example values\<close>

text \<open>
  A pod, options that let every line through, a template that prints the message and a
  newline, the tail \<^verbatim>\<open>NewTail\<close> builds from them, and surroundings in which only
  \<^verbatim>\<open>2024-01-02T03:04:05Z\<close> parses and the cluster answers with four lines and then a
  broken connection. The concrete instances of the theorems below are stated on them.
\<close>

definition pod0 :: Pod where
  "pod0 = \<lparr>Namespace = ''default'', Name = ''web-0'', NodeName = ''node-1'',
            Labels = Map.empty, Annotations = Map.empty\<rparr>"

definition options0 :: TailOptions where
  "options0 = \<lparr>Timestamps = False, Follow = True, SinceSeconds = Some 172800, SinceTime = None,
               TailLines = Some 10, OnlyLogLines = True, Namespace_opt = False,
               IsExclude = (\<lambda>msg. False), IsInclude = (\<lambda>msg. True),
               HighlightMatchedString = (\<lambda>buf. buf),
               UpdateTimezoneAndFormat = (\<lambda>ts. Inr ts)\<rparr>"

definition tmpl0 :: "Log \<Rightarrow> go_error + string" where
  "tmpl0 vm = Inr (Message vm @ newline)"

definition tail0 :: Tail where
  "tail0 = NewTail pod0 ''app'' tmpl0 options0 (\<lambda>s. s) (\<lambda>s. s) None False"

definition reads0 :: "(string \<times> time) list" where
  "reads0 = [(''2024-01-02T03:04:05.1Z a'' @ newline, 0),
             (''2024-01-02T03:04:05.2Z b'' @ newline, 0),
             (''2024-01-02T03:04:05.3Z c'' @ newline, 0),
             (''2024-01-02T03:04:06.25Z two'' @ newline, 0)]"

definition env0 :: env where
  "env0 = \<lparr>ParseRFC3339 =
              (\<lambda>s. if s = ''2024-01-02T03:04:05Z'' then Inr 1704164645000000000
                   else Inl (Err ''cannot parse'')),
            ParseRFC3339Nano = (\<lambda>s. Inl (Err ''cannot parse'')),
            hiGreenBold = (\<lambda>s. s),
            Stream = (\<lambda>ns pod req.
              Inr \<lparr>reads = reads0, final_read = ([], 0),
                   final_err = Err ''connection reset''\<rparr>)\<rparr>"

section \<open>The line codec\<close>

subsection \<open>The first occurrence of a byte\<close>

lemma IndexRune_None: "IndexRune s r = None \<longleftrightarrow> r \<notin> set s"
  by (induction s) auto

lemma IndexRune_Some:
  "IndexRune s r = Some n \<Longrightarrow> n < length s \<and> s ! n = r \<and> r \<notin> set (take n s)"
proof (induction s arbitrary: n)
  case Nil
  then show ?case by simp
next
  case (Cons b s)
  show ?case
  proof (cases "b = r")
    case True
    with Cons.prems show ?thesis by simp
  next
    case False
    with Cons.prems obtain m where m: "IndexRune s r = Some m" "n = Suc m"
      by auto
    from Cons.IH [OF m(1)] False m(2) show ?thesis by simp
  qed
qed

lemma IndexRune_append:
  "r \<notin> set p \<Longrightarrow> IndexRune (p @ s) r = map_option (\<lambda>n. length p + n) (IndexRune s r)"
proof (induction p)
  case Nil
  show ?case by (cases "IndexRune s r") simp_all
next
  case (Cons a p)
  then show ?case by (cases "IndexRune s r") auto
qed

subsection \<open>What the loop of removeSubsecond returns\<close>

text \<open>
  With no digit at or after index \<open>i\<close> the loop returns the value of \<^verbatim>\<open>last\<close> it started
  with; otherwise it returns the index of the last digit of the string, wherever that digit
  stands.
\<close>

lemma loop_no_digit:
  "(\<And>j. i \<le> j \<Longrightarrow> j < length ts \<Longrightarrow> \<not> IsDigit (ts ! j)) \<Longrightarrow>
   removeSubsecond_loop ts i l = l"
proof (induction ts i l rule: removeSubsecond_loop.induct)
  case (1 ts i l)
  show ?case
  proof (cases "i < length ts")
    case True
    have nd: "\<not> IsDigit (ts ! i)" using "1.prems" [of i] True by simp
    have "removeSubsecond_loop ts (i + 1) l = l"
      using "1.IH" [OF True] nd "1.prems" by simp
    then show ?thesis
      using True nd by (subst removeSubsecond_loop.simps) simp
  next
    case False
    then show ?thesis by (subst removeSubsecond_loop.simps) simp
  qed
qed

lemma loop_last_digit:
  "i \<le> k \<Longrightarrow> k < length ts \<Longrightarrow> IsDigit (ts ! k) \<Longrightarrow>
   (\<And>j. k < j \<Longrightarrow> j < length ts \<Longrightarrow> \<not> IsDigit (ts ! j)) \<Longrightarrow>
   removeSubsecond_loop ts i l = k"
proof (induction ts i l rule: removeSubsecond_loop.induct)
  case (1 ts i l)
  have il: "i < length ts" using "1.prems" by simp
  show ?case
  proof (cases "i = k")
    case True
    have "removeSubsecond_loop ts (k + 1) k = k"
      by (rule loop_no_digit) (use "1.prems" in auto)
    then show ?thesis
      using True il "1.prems"(3) by (subst removeSubsecond_loop.simps) simp
  next
    case False
    then have "i + 1 \<le> k" using "1.prems"(1) by simp
    then have "removeSubsecond_loop ts (i + 1) (if IsDigit (ts ! i) then i else l) = k"
      using "1.IH" [OF il] "1.prems" by blast
    then show ?thesis
      using il by (subst removeSubsecond_loop.simps) simp
  qed
qed

lemma last_digit_exists:
  assumes "i \<le> j" "j < length ts" "IsDigit (ts ! j)"
  obtains k where "i \<le> k" "k < length ts" "IsDigit (ts ! k)"
    "\<And>m. k < m \<Longrightarrow> m < length ts \<Longrightarrow> \<not> IsDigit (ts ! m)"
proof -
  let ?D = "{m. i \<le> m \<and> m < length ts \<and> IsDigit (ts ! m)}"
  have fin: "finite ?D" by simp
  have ne: "?D \<noteq> {}" using assms by auto
  define k where "k = Max ?D"
  have kin: "k \<in> ?D" unfolding k_def using fin ne by (rule Max_in)
  have kmax: "\<And>m. m \<in> ?D \<Longrightarrow> m \<le> k" unfolding k_def using fin by simp
  show thesis
  proof (rule that [of k])
    show "i \<le> k" "k < length ts" "IsDigit (ts ! k)" using kin by auto
  next
    fix m assume "k < m" "m < length ts"
    show "\<not> IsDigit (ts ! m)"
    proof
      assume "IsDigit (ts ! m)"
      then have "m \<in> ?D" using kin \<open>k < m\<close> \<open>m < length ts\<close> by auto
      from kmax [OF this] \<open>k < m\<close> show False by simp
    qed
  qed
qed

lemma IsDigit_not_dot: "\<not> IsDigit (CHR ''.'')"
  by (simp add: IsDigit_def)

subsection \<open>The three shapes of a canonical timestamp\<close>

lemma removeSubsecond_no_dot:
  "CHR ''.'' \<notin> set ts \<Longrightarrow> removeSubsecond ts = ts"
  by (simp add: removeSubsecond_def IndexRune_None [THEN iffD2])

lemma removeSubsecond_no_digit:
  assumes "IndexRune ts (CHR ''.'') = Some dot"
    and "\<And>j. dot \<le> j \<Longrightarrow> j < length ts \<Longrightarrow> \<not> IsDigit (ts ! j)"
  shows "removeSubsecond ts = ts"
  using assms loop_no_digit [of dot ts 0] by (simp add: removeSubsecond_def)

lemma removeSubsecond_digit:
  assumes "IndexRune ts (CHR ''.'') = Some dot"
    and "dot \<le> k" "k < length ts" "IsDigit (ts ! k)"
    and "\<And>j. k < j \<Longrightarrow> j < length ts \<Longrightarrow> \<not> IsDigit (ts ! j)"
  shows "removeSubsecond ts = take dot ts @ drop (k + 1) ts"
proof -
  have l: "removeSubsecond_loop ts dot 0 = k"
    using assms(2-5) by (rule loop_last_digit)
  have "ts ! dot = CHR ''.''" using IndexRune_Some [OF assms(1)] by simp
  then have "k \<noteq> dot" using assms(4) IsDigit_not_dot by auto
  then have "k \<noteq> 0" using assms(2) by simp
  then show ?thesis using assms(1) l by (simp add: removeSubsecond_def)
qed

lemma removeSubsecond_idem: "removeSubsecond (removeSubsecond t) = removeSubsecond t"
proof (cases "IndexRune t (CHR ''.'')")
  case None
  then show ?thesis by (simp add: removeSubsecond_def)
next
  case (Some dot)
  note dot = IndexRune_Some [OF Some]
  show ?thesis
  proof (cases "\<exists>j. dot \<le> j \<and> j < length t \<and> IsDigit (t ! j)")
    case False
    then have "removeSubsecond t = t"
      using removeSubsecond_no_digit [OF Some] by blast
    then show ?thesis by simp
  next
    case True
    then obtain j where "dot \<le> j" "j < length t" "IsDigit (t ! j)" by blast
    then obtain k where k: "dot \<le> k" "k < length t" "IsDigit (t ! k)"
      "\<And>m. k < m \<Longrightarrow> m < length t \<Longrightarrow> \<not> IsDigit (t ! m)"
      by (rule last_digit_exists) blast
    define r where "r = take dot t @ drop (k + 1) t"
    have r: "removeSubsecond t = r"
      unfolding r_def using Some k by (rule removeSubsecond_digit)
    have nodigit: "\<not> IsDigit (r ! m)" if "dot \<le> m" "m < length r" for m
    proof -
      have len: "length (take dot t) = dot" using dot by simp
      have "r ! m = drop (k + 1) t ! (m - dot)"
        unfolding r_def using that(1) len by (simp add: nth_append)
      also have "\<dots> = t ! (k + 1 + (m - dot))"
        using that k(2) unfolding r_def by (simp add: len)
      finally have eq: "r ! m = t ! (k + 1 + (m - dot))" .
      have "k + 1 + (m - dot) < length t"
        using that k(1,2) dot unfolding r_def by (simp add: len)
      then show ?thesis using k(4) [of "k + 1 + (m - dot)"] eq by simp
    qed
    have "removeSubsecond r = r"
    proof (cases "IndexRune r (CHR ''.'')")
      case None
      then show ?thesis by (simp add: removeSubsecond_def)
    next
      case (Some d)
      have "IndexRune r (CHR ''.'') =
          map_option (\<lambda>n. length (take dot t) + n) (IndexRune (drop (k + 1) t) (CHR ''.''))"
        unfolding r_def using dot by (intro IndexRune_append) simp
      with Some have "dot \<le> d" using dot by auto
      show ?thesis
      proof (rule removeSubsecond_no_digit [OF Some])
        fix m assume "d \<le> m" "m < length r"
        with \<open>dot \<le> d\<close> show "\<not> IsDigit (r ! m)" by (intro nodigit) auto
      qed
    qed
    with r show ?thesis by simp
  qed
qed

text \<open>
  Where no digit follows the digits of the fraction (the zone is \<^verbatim>\<open>Z\<close>), the dot and the
  fraction are cut out and nothing else.
\<close>

lemma removeSubsecond_fraction:
  assumes pre: "CHR ''.'' \<notin> set pre"
    and ds: "ds \<noteq> []" "\<And>c. c \<in> set ds \<Longrightarrow> IsDigit c"
    and suf: "\<And>c. c \<in> set suf \<Longrightarrow> \<not> IsDigit c"
  shows "removeSubsecond (pre @ ''.'' @ ds @ suf) = pre @ suf"
proof -
  let ?ts = "pre @ ''.'' @ ds @ suf"
  let ?k = "length pre + length ds"
  have dot: "IndexRune ?ts (CHR ''.'') = Some (length pre)"
    using pre by (simp add: IndexRune_append)
  have k: "?ts ! ?k = last ds"
    using ds(1) by (simp add: nth_append nth_Cons' last_conv_nth)
  have "removeSubsecond ?ts = take (length pre) ?ts @ drop (?k + 1) ?ts"
  proof (rule removeSubsecond_digit [OF dot])
    show "length pre \<le> ?k" by simp
    show "?k < length ?ts" by simp
    show "IsDigit (?ts ! ?k)" using k ds by simp
  next
    fix j assume j: "?k < j" "j < length ?ts"
    define m where "m = j - (?k + 1)"
    have jm: "j = length pre + Suc (length ds + m)" using j by (simp add: m_def)
    have "?ts ! j = suf ! m"
      unfolding jm by (simp add: nth_append)
    moreover have "m < length suf" using j by (simp add: m_def)
    ultimately show "\<not> IsDigit (?ts ! j)" using suf by simp
  qed
  then show ?thesis by simp
qed

text \<open>
  C4. Canonicalization is idempotent: for every timestamp string \<open>t\<close> (those of nanosecond
  precision among them), \<^verbatim>\<open>removeSubsecond\<close> applied to its own result returns that result;
  \<^verbatim>\<open>2024-01-02T03:04:05.123456789Z\<close> becomes \<^verbatim>\<open>2024-01-02T03:04:05Z\<close>, which a second
  application leaves as it is.
\<close>

theorem removeSubsecond_idempotent:
  "removeSubsecond (removeSubsecond t) = removeSubsecond t
   \<and> removeSubsecond ''2024-01-02T03:04:05.123456789Z'' = ''2024-01-02T03:04:05Z''
   \<and> removeSubsecond ''2024-01-02T03:04:05Z'' = ''2024-01-02T03:04:05Z''"
proof (intro conjI)
  show "removeSubsecond (removeSubsecond t) = removeSubsecond t"
    by (rule removeSubsecond_idem)
  show "removeSubsecond ''2024-01-02T03:04:05.123456789Z'' = ''2024-01-02T03:04:05Z''"
    by (simp add: removeSubsecond_def removeSubsecond_loop.simps IsDigit_def)
  show "removeSubsecond ''2024-01-02T03:04:05Z'' = ''2024-01-02T03:04:05Z''"
    by (simp add: removeSubsecond_def)
qed

text \<open>
  C5. The fractional seconds are meant to be cut out and the zone kept, whether it is
  \<^verbatim>\<open>Z\<close> or a numeric offset; the comment of \<^verbatim>\<open>removeSubsecond\<close> says that it removes the
  subsecond and converts RFC3339Nano to RFC3339. The loop does not stop at the end of the
  run of digits after the dot: it keeps the index of the last digit of the whole string. A
  numeric offset has digits, so for \<^verbatim>\<open>2024-01-02T03:04:05.123456789+07:00\<close> the function
  cuts the offset off with the fraction and returns \<^verbatim>\<open>2024-01-02T03:04:05\<close>, which is not
  \<^verbatim>\<open>2024-01-02T03:04:05+07:00\<close>.
\<close>

theorem removeSubsecond_cuts_numeric_offset:
  "removeSubsecond ''2024-01-02T03:04:05.123456789+07:00'' = ''2024-01-02T03:04:05''
   \<and> removeSubsecond ''2024-01-02T03:04:05.123456789+07:00'' \<noteq> ''2024-01-02T03:04:05+07:00''"
  by (simp add: removeSubsecond_def removeSubsecond_loop.simps IsDigit_def)

subsection \<open>Splitting a line\<close>

lemma splitLogLine_Inl: "(\<exists>err. splitLogLine line = Inl err) \<longleftrightarrow> CHR '' '' \<notin> set line"
  by (cases "IndexRune line (CHR '' '')")
    (simp_all add: splitLogLine_def IndexRune_None [symmetric])

lemma splitLogLine_no_space:
  "CHR '' '' \<notin> set line \<Longrightarrow> splitLogLine line = Inl (Err ''missing timestamp'')"
  by (simp add: splitLogLine_def IndexRune_None [THEN iffD2])

lemma splitLogLine_space:
  assumes "CHR '' '' \<in> set line"
  shows "\<exists>ts content. splitLogLine line = Inr (ts, content) \<and>
           line = ts @ '' '' @ content \<and> CHR '' '' \<notin> set ts"
proof -
  from assms obtain idx where idx: "IndexRune line (CHR '' '') = Some idx"
    using IndexRune_None [of line "CHR '' ''"] by (cases "IndexRune line (CHR '' '')") auto
  note i = IndexRune_Some [OF idx]
  have "idx < length line" using i by simp
  then have "line = take idx line @ line ! idx # drop (Suc idx) line"
    by (rule id_take_nth_drop)
  then have "line = take idx line @ '' '' @ drop (idx + 1) line"
    using i by simp
  then show ?thesis using idx i by (simp add: splitLogLine_def)
qed

section \<open>The resume tracker\<close>

subsection \<open>Counting in Go's int\<close>

lemma sint_dec: "0 < sint (x :: 64 word) \<Longrightarrow> sint (x - 1) = sint x - 1"
  using sint_lt [of x]
  by (simp add: sint_word_ariths signed_take_bit_int_eq_self)


subsection \<open>Skipping the lines a request names\<close>

text \<open>
  C1, with the guard of the code on the empty timestamp added. \<^verbatim>\<open>shouldSkip\<close> answers true
  exactly when the request is not nil, its timestamp is not the empty string and equals the
  canonical timestamp of the line, and its \<^verbatim>\<open>LinesToSkip\<close> is positive. When it answers
  true it leaves the request with \<^verbatim>\<open>LinesToSkip\<close> one lower; when it answers false it
  leaves the request as it was. For lines with the canonical timestamps \<open>A, A, A, B, B\<close>,
  \<open>A\<close> not empty, and the request \<open>{A, 2}\<close>, the first two lines are skipped and the other
  three pass.
\<close>

theorem shouldSkip_iff:
  "(fst (shouldSkip r ts) \<longleftrightarrow>
      (case r of None \<Rightarrow> False
       | Some rr \<Rightarrow> Timestamp rr \<noteq> [] \<and> Timestamp rr = ts \<and> 0 < sint (LinesToSkip rr)))
   \<and> (fst (shouldSkip r ts) \<longrightarrow>
         snd (shouldSkip r ts) = map_option (\<lambda>rr. rr\<lparr>LinesToSkip := LinesToSkip rr - 1\<rparr>) r
         \<and> map_option (\<lambda>rr. sint (LinesToSkip rr)) (snd (shouldSkip r ts))
             = map_option (\<lambda>rr. sint (LinesToSkip rr) - 1) r)
   \<and> (\<not> fst (shouldSkip r ts) \<longrightarrow> snd (shouldSkip r ts) = r)
   \<and> (A \<noteq> [] \<longrightarrow>
         shouldSkip_seq (Some \<lparr>Timestamp = A, LinesToSkip = 2\<rparr>) [A, A, A, B, B]
           = ([True, True, False, False, False], Some \<lparr>Timestamp = A, LinesToSkip = 0\<rparr>))"
proof (intro conjI impI)
  show "fst (shouldSkip r ts) \<longleftrightarrow>
      (case r of None \<Rightarrow> False
       | Some rr \<Rightarrow> Timestamp rr \<noteq> [] \<and> Timestamp rr = ts \<and> 0 < sint (LinesToSkip rr))"
    by (cases r) (auto simp: shouldSkip_def)
next
  assume "fst (shouldSkip r ts)"
  then obtain rr where rr: "r = Some rr" "Timestamp rr \<noteq> []" "Timestamp rr = ts"
      "0 < sint (LinesToSkip rr)"
    by (cases r) (auto simp: shouldSkip_def split: if_splits)
  then show "snd (shouldSkip r ts) = map_option (\<lambda>rr. rr\<lparr>LinesToSkip := LinesToSkip rr - 1\<rparr>) r"
    by (simp add: shouldSkip_def)
  from rr show "map_option (\<lambda>rr. sint (LinesToSkip rr)) (snd (shouldSkip r ts))
             = map_option (\<lambda>rr. sint (LinesToSkip rr) - 1) r"
    by (simp add: shouldSkip_def sint_dec)
next
  assume "\<not> fst (shouldSkip r ts)"
  then show "snd (shouldSkip r ts) = r"
    by (cases r) (auto simp: shouldSkip_def split: if_splits)
next
  assume "A \<noteq> []"
  then show "shouldSkip_seq (Some \<lparr>Timestamp = A, LinesToSkip = 2\<rparr>) [A, A, A, B, B]
           = ([True, True, False, False, False], Some \<lparr>Timestamp = A, LinesToSkip = 0\<rparr>)"
    by (simp add: shouldSkip_def)
qed

text \<open>
  The theorem at a request for two lines of \<^verbatim>\<open>2024-01-02T03:04:05Z\<close>, at the same request
  with nothing left to skip, and on five lines of which three carry that timestamp.
\<close>

theorem shouldSkip_iff_witness:
  "fst (shouldSkip (Some \<lparr>Timestamp = ''2024-01-02T03:04:05Z'', LinesToSkip = 2\<rparr>)
         ''2024-01-02T03:04:05Z'')
   \<and> snd (shouldSkip (Some \<lparr>Timestamp = ''2024-01-02T03:04:05Z'', LinesToSkip = 2\<rparr>)
         ''2024-01-02T03:04:05Z'')
       = Some \<lparr>Timestamp = ''2024-01-02T03:04:05Z'', LinesToSkip = 1\<rparr>
   \<and> \<not> fst (shouldSkip (Some \<lparr>Timestamp = ''2024-01-02T03:04:05Z'', LinesToSkip = 0\<rparr>)
         ''2024-01-02T03:04:05Z'')
   \<and> shouldSkip_seq (Some \<lparr>Timestamp = ''2024-01-02T03:04:05Z'', LinesToSkip = 2\<rparr>)
         [''2024-01-02T03:04:05Z'', ''2024-01-02T03:04:05Z'', ''2024-01-02T03:04:05Z'',
          ''2024-01-02T03:04:06Z'', ''2024-01-02T03:04:06Z'']
       = ([True, True, False, False, False],
          Some \<lparr>Timestamp = ''2024-01-02T03:04:05Z'', LinesToSkip = 0\<rparr>)"
  using shouldSkip_iff [of "Some \<lparr>Timestamp = ''2024-01-02T03:04:05Z'', LinesToSkip = 2\<rparr>"
      "''2024-01-02T03:04:05Z''" "''2024-01-02T03:04:05Z''" "''2024-01-02T03:04:06Z''"]
    shouldSkip_iff [of "Some \<lparr>Timestamp = ''2024-01-02T03:04:05Z'', LinesToSkip = 0\<rparr>"
      "''2024-01-02T03:04:05Z''" "''2024-01-02T03:04:05Z''" "''2024-01-02T03:04:06Z''"]
  by simp

text \<open>
  Without the guard the statement fails: a request with the empty timestamp and one line to
  skip is not nil, its timestamp equals the empty canonical timestamp of a line that begins
  with a space, its count is positive, and the answer is false.
\<close>

theorem shouldSkip_empty_timestamp_counterexample:
  "Timestamp \<lparr>Timestamp = [], LinesToSkip = 1\<rparr> = []
   \<and> 0 < sint (LinesToSkip \<lparr>Timestamp = [], LinesToSkip = 1\<rparr>)
   \<and> shouldSkip (Some \<lparr>Timestamp = [], LinesToSkip = 1\<rparr>) []
       = (False, Some \<lparr>Timestamp = [], LinesToSkip = 1\<rparr>)"
  by (simp add: shouldSkip_def)

text \<open>
  C9. A request whose timestamp is the empty string never skips and is never decremented,
  whatever the canonical timestamp of the line (the empty one included) and whatever its
  \<^verbatim>\<open>LinesToSkip\<close> (the positive ones included); a nil request never skips and stays nil.
\<close>

theorem shouldSkip_empty_request_timestamp:
  "shouldSkip None ts = (False, None)
   \<and> shouldSkip (Some \<lparr>Timestamp = [], LinesToSkip = n\<rparr>) ts
       = (False, Some \<lparr>Timestamp = [], LinesToSkip = n\<rparr>)"
  by (simp add: shouldSkip_def)

subsection \<open>The watermark\<close>

lemma last_seen_rememberLastTimestamp:
  "last_seen (rememberLastTimestamp t ts) =
     (if timestamp (last_seen t) = ts
      then \<lparr>timestamp = ts, lines = lines (last_seen t) + 1\<rparr>
      else \<lparr>timestamp = ts, lines = 1\<rparr>)"
  by (simp add: rememberLastTimestamp_def)

lemma rememberLastTimestamp_frame [simp]:
  "resumeRequest (rememberLastTimestamp t ts) = resumeRequest t"
  "Options (rememberLastTimestamp t ts) = Options t"
  "effects (rememberLastTimestamp t ts) = effects t"
  by (simp_all add: rememberLastTimestamp_def)




lemma stored_timestamps_eq: "stored_timestamps t tss = tss"
  by (induction tss arbitrary: t) (simp_all add: last_seen_rememberLastTimestamp)

text \<open>
  C3, as far as it holds. \<^verbatim>\<open>rememberLastTimestamp\<close> stores whatever timestamp it is given
  and compares timestamps for equality only: after each observation the stored timestamp
  is the observed one. The stored timestamps are therefore in non-decreasing order (the
  order of the bytes, which on canonical timestamps of one zone is the order of time)
  whenever the observed timestamps are, starting from the one stored before.
\<close>

theorem stored_timestamp_follows_observed:
  "stored_timestamps t tss = tss
   \<and> (sorted (timestamp (last_seen t) # tss) \<longrightarrow>
        sorted (timestamp (last_seen t) # stored_timestamps t tss))"
  by (simp add: stored_timestamps_eq)

text \<open>The theorem on a new tail and three lines in the order of time.\<close>

theorem stored_timestamp_follows_observed_witness:
  "stored_timestamps tail0
       [''2024-01-02T03:04:05Z'', ''2024-01-02T03:04:05Z'', ''2024-01-02T03:04:06Z'']
     = [''2024-01-02T03:04:05Z'', ''2024-01-02T03:04:05Z'', ''2024-01-02T03:04:06Z'']
   \<and> sorted (timestamp (last_seen tail0) #
        stored_timestamps tail0
          [''2024-01-02T03:04:05Z'', ''2024-01-02T03:04:05Z'', ''2024-01-02T03:04:06Z''])"
  using stored_timestamp_follows_observed [of tail0
      "[''2024-01-02T03:04:05Z'', ''2024-01-02T03:04:05Z'', ''2024-01-02T03:04:06Z'']"]
  by (simp add: tail0_def NewTail_def)

text \<open>
  Nothing keeps the stored timestamp from going back: when a line of second 06 is followed
  by a line of second 05, the watermark holds 06 and then 05.
\<close>

theorem stored_timestamp_decreases_counterexample:
  "stored_timestamps tail0 [''2024-01-02T03:04:06Z'', ''2024-01-02T03:04:05Z'']
     = [''2024-01-02T03:04:06Z'', ''2024-01-02T03:04:05Z'']
   \<and> ''2024-01-02T03:04:05Z'' < ''2024-01-02T03:04:06Z''
   \<and> \<not> sorted (stored_timestamps tail0 [''2024-01-02T03:04:06Z'', ''2024-01-02T03:04:05Z''])"
  by (simp add: tail0_def NewTail_def last_seen_rememberLastTimestamp)

section \<open>The tail\<close>

subsection \<open>What printing leaves alone\<close>

lemma Fprint_frame [simp]:
  "last_seen (Fprint_out t s) = last_seen t"
  "resumeRequest (Fprint_out t s) = resumeRequest t"
  "Options (Fprint_out t s) = Options t"
  "last_seen (Fprint_errOut t s) = last_seen t"
  "resumeRequest (Fprint_errOut t s) = resumeRequest t"
  "Options (Fprint_errOut t s) = Options t"
  by (simp_all add: Fprint_out_def Fprint_errOut_def)

lemma Print_frame [simp]:
  "last_seen (Print t msg) = last_seen t"
  "resumeRequest (Print t msg) = resumeRequest t"
  "Options (Print t msg) = Options t"
  "last_seen (PrintWithoutHighlight t msg) = last_seen t"
  "resumeRequest (PrintWithoutHighlight t msg) = resumeRequest t"
  "Options (PrintWithoutHighlight t msg) = Options t"
  by (simp_all add: Print_def PrintWithoutHighlight_def split: sum.splits)

lemma emitOTelLog_frame [simp]:
  "last_seen (emitOTelLog t msg ts) = last_seen t"
  "resumeRequest (emitOTelLog t msg ts) = resumeRequest t"
  "Options (emitOTelLog t msg ts) = Options t"
  "otelEnabled (emitOTelLog t msg ts) = otelEnabled t"
  by (simp_all add: emitOTelLog_def)

lemma printStarting_frame [simp]:
  "resumeRequest (printStarting e t) = resumeRequest t"
  "Options (printStarting e t) = Options t"
  "Pod (printStarting e t) = Pod t"
  "ContainerName (printStarting e t) = ContainerName t"
  by (simp_all add: printStarting_def Fprint_errOut_def Let_def)

lemma effects_Print:
  "set (effects t) \<subseteq> set (effects (Print t msg))"
  "set (effects t) \<subseteq> set (effects (PrintWithoutHighlight t msg))"
  by (auto simp: Print_def PrintWithoutHighlight_def Fprint_out_def Fprint_errOut_def
      split: sum.splits)

lemma effects_emitOTelLog: "set (effects t) \<subseteq> set (effects (emitOTelLog t msg ts))"
  by (auto simp: emitOTelLog_def)

lemma effects_printStarting: "set (effects t) \<subseteq> set (effects (printStarting e t))"
  by (auto simp: printStarting_def Fprint_errOut_def Let_def)

subsection \<open>One line\<close>

lemma consumeLine_last_seen:
  "last_seen (consumeLine e now t line) =
     (case splitLogLine line of
        Inl err \<Rightarrow> last_seen t
      | Inr (rfc3339Nano, content) \<Rightarrow>
          last_seen (rememberLastTimestamp t (removeSubsecond rfc3339Nano)))"
  by (simp add: consumeLine_def Let_def split: sum.splits prod.splits)

lemma consumeLine_resumeRequest:
  "resumeRequest (consumeLine e now t line) =
     (case splitLogLine line of
        Inl err \<Rightarrow> resumeRequest t
      | Inr (rfc3339Nano, content) \<Rightarrow>
          snd (shouldSkip (resumeRequest t) (removeSubsecond rfc3339Nano)))"
  by (simp add: consumeLine_def Let_def split: sum.splits prod.splits)

lemma consumeLine_Options [simp]: "Options (consumeLine e now t line) = Options t"
  by (simp add: consumeLine_def Let_def split: sum.splits prod.splits)

text \<open>A line that is skipped or filtered out changes the watermark and the request only.\<close>

lemma consumeLine_dropped:
  assumes "splitLogLine line = Inr (rfc3339Nano, content)"
    and "fst (shouldSkip (resumeRequest t) (removeSubsecond rfc3339Nano))
         \<or> IsExclude (Options t) content \<or> \<not> IsInclude (Options t) content"
  shows "consumeLine e now t line =
           (rememberLastTimestamp t (removeSubsecond rfc3339Nano))
             \<lparr>resumeRequest := snd (shouldSkip (resumeRequest t) (removeSubsecond rfc3339Nano))\<rparr>"
proof (cases "shouldSkip (resumeRequest t) (removeSubsecond rfc3339Nano)")
  case (Pair skip r)
  show ?thesis
  proof (cases skip)
    case True
    with Pair assms(1) show ?thesis by (simp add: consumeLine_def)
  next
    case False
    with Pair assms(2) have "IsExclude (Options t) content \<or> \<not> IsInclude (Options t) content"
      by simp
    with Pair False assms(1) show ?thesis by (simp add: consumeLine_def)
  qed
qed

text \<open>A line that passes is printed, or only exported, after the watermark has moved.\<close>

lemma consumeLine_passed:
  assumes "splitLogLine line = Inr (rfc3339Nano, content)"
    and "\<not> fst (shouldSkip (resumeRequest t) (removeSubsecond rfc3339Nano))"
    and "\<not> IsExclude (Options t) content" "IsInclude (Options t) content"
  shows "\<exists>t3 msg. set (effects t) \<subseteq> set (effects t3) \<and>
           consumeLine e now t line \<in> {t3, Print t3 msg, PrintWithoutHighlight t3 msg}"
proof -
  obtain r where sk: "shouldSkip (resumeRequest t) (removeSubsecond rfc3339Nano) = (False, r)"
    using assms(2) by (cases "shouldSkip (resumeRequest t) (removeSubsecond rfc3339Nano)") simp
  define t2 where "t2 = (rememberLastTimestamp t (removeSubsecond rfc3339Nano))\<lparr>resumeRequest := r\<rparr>"
  define ts where "ts = (case ParseRFC3339Nano e rfc3339Nano of Inl parseErr \<Rightarrow> now | Inr tm \<Rightarrow> tm)"
  define t3 where "t3 = (if otelEnabled t2 \<and> otelExporter t2 \<noteq> None
                           then emitOTelLog t2 content ts else t2)"
  have e2: "effects t2 = effects t" by (simp add: t2_def)
  have e3: "set (effects t) \<subseteq> set (effects t3)"
    using e2 effects_emitOTelLog [of t2 content ts] by (simp add: t3_def)
  have o2': "Options ((rememberLastTimestamp t (removeSubsecond rfc3339Nano))\<lparr>resumeRequest := r\<rparr>)
      = Options t"
    by simp
  have eq: "consumeLine e now t line =
      (if Timestamps (Options t3) then
         (case UpdateTimezoneAndFormat (Options t3) rfc3339Nano of
            Inl err \<Rightarrow> PrintWithoutHighlight t3 (''['' @ Error err @ ''] '' @ line)
          | Inr updatedTs \<Rightarrow>
              (if \<not> otelEnabled t3 then Print t3 (updatedTs @ '' '' @ content) else t3))
       else if \<not> otelEnabled t3 then Print t3 content
       else t3)"
    using assms(3,4)
    by (simp only: consumeLine_def Let_def assms(1) sum.case prod.case
        rememberLastTimestamp_frame sk o2' if_False simp_thms t2_def ts_def t3_def)
  show ?thesis
  proof (cases "Timestamps (Options t3)")
    case False
    with eq e3 show ?thesis by (cases "otelEnabled t3") auto
  next
    case True
    show ?thesis
    proof (cases "UpdateTimezoneAndFormat (Options t3) rfc3339Nano")
      case (Inl err)
      with True eq e3 show ?thesis by auto
    next
      case (Inr updatedTs)
      with True eq e3 show ?thesis by (cases "otelEnabled t3") auto
    qed
  qed
qed

lemma effects_consumeLine: "set (effects t) \<subseteq> set (effects (consumeLine e now t line))"
proof (cases "splitLogLine line")
  case (Inl err)
  then show ?thesis by (simp add: consumeLine_def effects_Print)
next
  case (Inr p)
  obtain rfc3339Nano content where p: "p = (rfc3339Nano, content)" by (cases p)
  show ?thesis
  proof (cases "fst (shouldSkip (resumeRequest t) (removeSubsecond rfc3339Nano))
         \<or> IsExclude (Options t) content \<or> \<not> IsInclude (Options t) content")
    case True
    from consumeLine_dropped [OF Inr [unfolded p] True, of e now]
    show ?thesis by simp
  next
    case False
    then obtain t3 msg where "set (effects t) \<subseteq> set (effects t3)"
      "consumeLine e now t line \<in> {t3, Print t3 msg, PrintWithoutHighlight t3 msg}"
      using consumeLine_passed [OF Inr [unfolded p], of t e now] by blast
    then show ?thesis using effects_Print [of t3 msg] by auto
  qed
qed

lemma consumeLine_no_request:
  "resumeRequest t = None \<Longrightarrow> resumeRequest (consumeLine e now t line) = None"
  by (simp add: consumeLine_resumeRequest shouldSkip_def split: sum.splits prod.splits)

text \<open>
  C6. \<^verbatim>\<open>splitLogLine\<close> fails exactly on the lines without a space, and then with the error
  \<^verbatim>\<open>missing timestamp\<close>. A line with a space is split at its first space: the timestamp is
  what stands before it and has no space, the content is all that stands after it;
  \<^verbatim>\<open>2024-01-02T03:04:05.0Z hello\<close> gives \<^verbatim>\<open>2024-01-02T03:04:05.0Z\<close> and \<^verbatim>\<open>hello\<close>. A line
  that does not split is not dropped: \<^verbatim>\<open>consumeLine\<close> hands
  \<^verbatim>\<open>[missing timestamp]\<close>, a space and the line as it came to \<^verbatim>\<open>PrintWithoutHighlight\<close>, and
  what the template renders of it is written to \<^verbatim>\<open>out\<close>.
\<close>

theorem splitLogLine_malformed_line:
  "((\<exists>err. splitLogLine line = Inl err) \<longleftrightarrow> CHR '' '' \<notin> set line)
   \<and> (CHR '' '' \<notin> set line \<longrightarrow> splitLogLine line = Inl (Err ''missing timestamp''))
   \<and> (CHR '' '' \<in> set line \<longrightarrow>
        (\<exists>ts content. splitLogLine line = Inr (ts, content) \<and>
           line = ts @ '' '' @ content \<and> CHR '' '' \<notin> set ts))
   \<and> splitLogLine ''2024-01-02T03:04:05.0Z hello'' = Inr (''2024-01-02T03:04:05.0Z'', ''hello'')
   \<and> (CHR '' '' \<notin> set line \<longrightarrow>
        consumeLine e now t line = PrintWithoutHighlight t (''[missing timestamp] '' @ line))
   \<and> (CHR '' '' \<notin> set line \<and> sprint t (''[missing timestamp] '' @ line) = Inr buf \<longrightarrow>
        consumeLine e now t line = Fprint_out t buf \<and>
        effects (consumeLine e now t line) = effects t @ [Out buf])"
proof (intro conjI impI)
  show "(\<exists>err. splitLogLine line = Inl err) \<longleftrightarrow> CHR '' '' \<notin> set line"
    by (rule splitLogLine_Inl)
  show "splitLogLine line = Inl (Err ''missing timestamp'')" if "CHR '' '' \<notin> set line"
    using that by (rule splitLogLine_no_space)
  show "\<exists>ts content. splitLogLine line = Inr (ts, content) \<and>
           line = ts @ '' '' @ content \<and> CHR '' '' \<notin> set ts" if "CHR '' '' \<in> set line"
    using that by (rule splitLogLine_space)
  show "splitLogLine ''2024-01-02T03:04:05.0Z hello'' = Inr (''2024-01-02T03:04:05.0Z'', ''hello'')"
    by (simp add: splitLogLine_def)
  show "consumeLine e now t line = PrintWithoutHighlight t (''[missing timestamp] '' @ line)"
    if "CHR '' '' \<notin> set line"
    using splitLogLine_no_space [OF that] by (simp add: consumeLine_def)
next
  assume h: "CHR '' '' \<notin> set line \<and> sprint t (''[missing timestamp] '' @ line) = Inr buf"
  then have "consumeLine e now t line = PrintWithoutHighlight t (''[missing timestamp] '' @ line)"
    using splitLogLine_no_space [of line] by (simp add: consumeLine_def)
  with h show "consumeLine e now t line = Fprint_out t buf"
    by (simp add: PrintWithoutHighlight_def)
  then show "effects (consumeLine e now t line) = effects t @ [Out buf]"
    by (simp add: Fprint_out_def)
qed

text \<open>
  The theorem on the line \<^verbatim>\<open>not-a-valid-line\<close>, which a new tail prints with the marker and
  a newline, and on a line that splits.
\<close>

theorem splitLogLine_malformed_line_witness:
  "splitLogLine ''not-a-valid-line'' = Inl (Err ''missing timestamp'')
   \<and> effects (consumeLine env0 0 tail0 ''not-a-valid-line'')
       = [Out (''[missing timestamp] not-a-valid-line'' @ newline)]
   \<and> (\<exists>ts content. splitLogLine ''2024-01-02T03:04:05.0Z hello'' = Inr (ts, content) \<and>
         ''2024-01-02T03:04:05.0Z hello'' = ts @ '' '' @ content \<and> CHR '' '' \<notin> set ts)"
proof -
  note bad = splitLogLine_malformed_line [of "''not-a-valid-line''" env0 0 tail0
      "''[missing timestamp] not-a-valid-line'' @ newline"]
  note good = splitLogLine_malformed_line [of "''2024-01-02T03:04:05.0Z hello''" env0 0 tail0 "[]"]
  have no_space: "CHR '' '' \<notin> set ''not-a-valid-line''" by simp
  have space: "CHR '' '' \<in> set ''2024-01-02T03:04:05.0Z hello''" by simp
  have rendered: "sprint tail0 (''[missing timestamp] '' @ ''not-a-valid-line'')
      = Inr (''[missing timestamp] not-a-valid-line'' @ newline)"
    by (simp add: sprint_def tail0_def NewTail_def tmpl0_def)
  have "effects tail0 = []" by (simp add: tail0_def NewTail_def)
  moreover have "effects (consumeLine env0 0 tail0 ''not-a-valid-line'')
      = effects tail0 @ [Out (''[missing timestamp] not-a-valid-line'' @ newline)]"
    using bad no_space rendered by blast
  ultimately have "effects (consumeLine env0 0 tail0 ''not-a-valid-line'')
      = [Out (''[missing timestamp] not-a-valid-line'' @ newline)]"
    by simp
  moreover have "splitLogLine ''not-a-valid-line'' = Inl (Err ''missing timestamp'')"
    using bad no_space by blast
  moreover have "\<exists>ts content. splitLogLine ''2024-01-02T03:04:05.0Z hello'' = Inr (ts, content) \<and>
         ''2024-01-02T03:04:05.0Z hello'' = ts @ '' '' @ content \<and> CHR '' '' \<notin> set ts"
    using good space by blast
  ultimately show ?thesis by blast
qed

text \<open>
  C7. Whatever the resume request and the filters of the tail: a line that splits moves the
  watermark by exactly one call of \<^verbatim>\<open>rememberLastTimestamp\<close> on its canonical timestamp, and
  a line that does not split leaves the watermark as it was. The observation comes before
  the two places where \<^verbatim>\<open>consumeLine\<close> gives a line up: when the line is skipped for the
  resume request, or excluded, or not included, the tail that results is the tail after the
  observation with the request as \<^verbatim>\<open>shouldSkip\<close> left it, and nothing is written.
\<close>

theorem consumeLine_observes_before_filtering:
  "last_seen (consumeLine e now t line) =
     (case splitLogLine line of
        Inl err \<Rightarrow> last_seen t
      | Inr (rfc3339Nano, content) \<Rightarrow>
          last_seen (rememberLastTimestamp t (removeSubsecond rfc3339Nano)))
   \<and> (case splitLogLine line of
        Inl err \<Rightarrow> True
      | Inr (rfc3339Nano, content) \<Rightarrow>
          (if fst (shouldSkip (resumeRequest t) (removeSubsecond rfc3339Nano))
              \<or> IsExclude (Options t) content \<or> \<not> IsInclude (Options t) content
           then consumeLine e now t line =
                  (rememberLastTimestamp t (removeSubsecond rfc3339Nano))
                    \<lparr>resumeRequest :=
                       snd (shouldSkip (resumeRequest t) (removeSubsecond rfc3339Nano))\<rparr>
           else True))"
proof (rule conjI)
  show "last_seen (consumeLine e now t line) =
     (case splitLogLine line of
        Inl err \<Rightarrow> last_seen t
      | Inr (rfc3339Nano, content) \<Rightarrow>
          last_seen (rememberLastTimestamp t (removeSubsecond rfc3339Nano)))"
    by (rule consumeLine_last_seen)
next
  show "case splitLogLine line of
        Inl err \<Rightarrow> True
      | Inr (rfc3339Nano, content) \<Rightarrow>
          (if fst (shouldSkip (resumeRequest t) (removeSubsecond rfc3339Nano))
              \<or> IsExclude (Options t) content \<or> \<not> IsInclude (Options t) content
           then consumeLine e now t line =
                  (rememberLastTimestamp t (removeSubsecond rfc3339Nano))
                    \<lparr>resumeRequest :=
                       snd (shouldSkip (resumeRequest t) (removeSubsecond rfc3339Nano))\<rparr>
           else True)"
  proof (cases "splitLogLine line")
    case (Inl err)
    then show ?thesis by simp
  next
    case (Inr p)
    obtain rfc3339Nano content where p: "p = (rfc3339Nano, content)" by (cases p)
    show ?thesis
      using consumeLine_dropped [of line rfc3339Nano content t e now] Inr p by simp
  qed
qed

text \<open>
  The theorem on a line that the resume request skips, on a line that the exclude filter
  drops, and on a line without a space.
\<close>

theorem consumeLine_observes_before_filtering_witness:
  "consumeLine env0 0
       (tail0\<lparr>resumeRequest := Some \<lparr>Timestamp = ''2024-01-02T03:04:05Z'', LinesToSkip = 1\<rparr>\<rparr>)
       ''2024-01-02T03:04:05.5Z one''
     = tail0\<lparr>last_seen := \<lparr>timestamp = ''2024-01-02T03:04:05Z'', lines = 1\<rparr>,
             resumeRequest := Some \<lparr>Timestamp = ''2024-01-02T03:04:05Z'', LinesToSkip = 0\<rparr>\<rparr>
   \<and> consumeLine env0 0
       (tail0\<lparr>Options := options0\<lparr>IsExclude := \<lambda>msg. True\<rparr>\<rparr>)
       ''2024-01-02T03:04:05.5Z one''
     = tail0\<lparr>Options := options0\<lparr>IsExclude := \<lambda>msg. True\<rparr>,
             last_seen := \<lparr>timestamp = ''2024-01-02T03:04:05Z'', lines = 1\<rparr>\<rparr>
   \<and> last_seen (consumeLine env0 0 tail0 ''not-a-valid-line'') = \<lparr>timestamp = [], lines = 0\<rparr>"
proof -
  let ?t = "tail0\<lparr>resumeRequest := Some \<lparr>Timestamp = ''2024-01-02T03:04:05Z'', LinesToSkip = 1\<rparr>\<rparr>"
  let ?u = "tail0\<lparr>Options := options0\<lparr>IsExclude := \<lambda>msg. True\<rparr>\<rparr>"
  note skipped = consumeLine_observes_before_filtering [of env0 0 ?t "''2024-01-02T03:04:05.5Z one''"]
  note excluded = consumeLine_observes_before_filtering [of env0 0 ?u "''2024-01-02T03:04:05.5Z one''"]
  note malformed = consumeLine_observes_before_filtering [of env0 0 tail0 "''not-a-valid-line''"]
  have split: "splitLogLine ''2024-01-02T03:04:05.5Z one'' = Inr (''2024-01-02T03:04:05.5Z'', ''one'')"
    by (simp add: splitLogLine_def)
  have canon: "removeSubsecond ''2024-01-02T03:04:05.5Z'' = ''2024-01-02T03:04:05Z''"
    by (simp add: removeSubsecond_def removeSubsecond_loop.simps IsDigit_def)
  have bad: "splitLogLine ''not-a-valid-line'' = Inl (Err ''missing timestamp'')"
    by (simp add: splitLogLine_def)
  from skipped excluded malformed show ?thesis
    by (simp add: split canon bad tail0_def NewTail_def options0_def rememberLastTimestamp_def
        shouldSkip_def)
qed

subsection \<open>A stream of lines\<close>

lemma effects_consumeRead: "set (effects t) \<subseteq> set (effects (consumeRead e t rd))"
  by (simp add: consumeRead_def effects_consumeLine)

lemma consumeRead_no_request:
  "resumeRequest t = None \<Longrightarrow> resumeRequest (consumeRead e t rd) = None"
  by (simp add: consumeRead_def consumeLine_no_request)

lemma consumeRead_Options [simp]: "Options (consumeRead e t rd) = Options t"
  by (simp add: consumeRead_def)

lemma effects_reads: "set (effects t) \<subseteq> set (effects (foldl (consumeRead e) t rds))"
proof (induction rds arbitrary: t)
  case Nil
  show ?case by simp
next
  case (Cons rd rds)
  show ?case using effects_consumeRead [of t e rd] Cons [of "consumeRead e t rd"] by auto
qed

lemma reads_no_request:
  "resumeRequest t = None \<Longrightarrow> resumeRequest (foldl (consumeRead e) t rds) = None"
  by (induction rds arbitrary: t) (simp_all add: consumeRead_no_request)

lemma reads_Options [simp]: "Options (foldl (consumeRead e) t rds) = Options t"
  by (induction rds arbitrary: t) simp_all

lemma effects_ConsumeRequest:
  "set (effects t) \<subseteq> set (effects (snd (ConsumeRequest e t request)))"
proof (cases request)
  case (Inl err)
  then show ?thesis by (simp add: ConsumeRequest_def)
next
  case (Inr s)
  show ?thesis
    using effects_reads [of t e "reads s"]
      effects_consumeRead [of "foldl (consumeRead e) t (reads s)" e "final_read s"] Inr
    by (auto simp: ConsumeRequest_def Let_def)
qed

lemma ConsumeRequest_no_request:
  "resumeRequest t = None \<Longrightarrow> resumeRequest (snd (ConsumeRequest e t request)) = None"
  by (cases request)
    (simp_all add: ConsumeRequest_def Let_def reads_no_request consumeRead_no_request)

lemma ConsumeRequest_Options [simp]: "Options (snd (ConsumeRequest e t request)) = Options t"
  by (cases request) (simp_all add: ConsumeRequest_def Let_def)

subsection \<open>Start\<close>

text \<open>
  \<^verbatim>\<open>Start\<close> prints the banner, sends the request it builds from the options of the tail,
  and consumes the answer.
\<close>

lemma Start_unfold:
  "\<exists>t2 request.
     snd (Start e t) = snd (ConsumeRequest e t2 request) \<and>
     resumeRequest t2 = resumeRequest t \<and> Options t2 = Options t \<and>
     effects t2 = effects (printStarting e t) @
       [GetLogs (Namespace (Pod t)) (Name (Pod t))
          \<lparr>Follow_req = Follow (Options t), Timestamps_req = True,
           Container_req = ContainerName t,
           SinceSeconds_req = SinceSeconds (Options t), SinceTime_req = SinceTime (Options t),
           TailLines_req = TailLines (Options t)\<rparr>]"
proof -
  define req where "req = \<lparr>Follow_req = Follow (Options t), Timestamps_req = True,
      Container_req = ContainerName t,
      SinceSeconds_req = SinceSeconds (Options t), SinceTime_req = SinceTime (Options t),
      TailLines_req = TailLines (Options t)\<rparr>"
  define t2 where "t2 = (printStarting e t)\<lparr>effects := effects (printStarting e t) @
      [GetLogs (Namespace (Pod t)) (Name (Pod t)) req]\<rparr>"
  define request where "request = Stream e (Namespace (Pod t)) (Name (Pod t)) req"
  have "snd (Start e t) = snd (ConsumeRequest e t2 request)"
    by (simp add: Start_def Let_def req_def t2_def request_def split: prod.splits)
  moreover have "resumeRequest t2 = resumeRequest t" "Options t2 = Options t"
    by (simp_all add: t2_def)
  moreover have "effects t2 = effects (printStarting e t) @
      [GetLogs (Namespace (Pod t)) (Name (Pod t)) req]"
    by (simp add: t2_def)
  ultimately show ?thesis unfolding req_def by blast
qed

lemma Start_request:
  "GetLogs (Namespace (Pod t)) (Name (Pod t))
     \<lparr>Follow_req = Follow (Options t), Timestamps_req = True, Container_req = ContainerName t,
      SinceSeconds_req = SinceSeconds (Options t), SinceTime_req = SinceTime (Options t),
      TailLines_req = TailLines (Options t)\<rparr>
   \<in> set (effects (snd (Start e t)))"
proof -
  from Start_unfold [of e t] obtain t2 request where
    s: "snd (Start e t) = snd (ConsumeRequest e t2 request)" and
    e: "effects t2 = effects (printStarting e t) @
       [GetLogs (Namespace (Pod t)) (Name (Pod t))
          \<lparr>Follow_req = Follow (Options t), Timestamps_req = True,
           Container_req = ContainerName t,
           SinceSeconds_req = SinceSeconds (Options t), SinceTime_req = SinceTime (Options t),
           TailLines_req = TailLines (Options t)\<rparr>]"
    by blast
  from e have "GetLogs (Namespace (Pod t)) (Name (Pod t))
          \<lparr>Follow_req = Follow (Options t), Timestamps_req = True,
           Container_req = ContainerName t,
           SinceSeconds_req = SinceSeconds (Options t), SinceTime_req = SinceTime (Options t),
           TailLines_req = TailLines (Options t)\<rparr> \<in> set (effects t2)"
    by simp
  then show ?thesis
    using effects_ConsumeRequest [of t2 e request] s by auto
qed

lemma effects_Start: "set (effects t) \<subseteq> set (effects (snd (Start e t)))"
proof -
  from Start_unfold [of e t] obtain t2 request req where
    s: "snd (Start e t) = snd (ConsumeRequest e t2 request)" and
    e: "effects t2 = effects (printStarting e t) @ [req]"
    by blast
  from e have "set (effects t) \<subseteq> set (effects t2)"
    using effects_printStarting [of t e] by auto
  then show ?thesis
    using effects_ConsumeRequest [of t2 e request] s by auto
qed

lemma Start_no_request:
  assumes "resumeRequest t = None"
  shows "resumeRequest (snd (Start e t)) = None"
proof -
  from Start_unfold [of e t] obtain t2 request where
    "snd (Start e t) = snd (ConsumeRequest e t2 request)" "resumeRequest t2 = resumeRequest t"
    by blast
  with assms show ?thesis by (simp add: ConsumeRequest_no_request)
qed

lemma Start_Options: "Options (snd (Start e t)) = Options t"
proof -
  from Start_unfold [of e t] obtain t2 request where
    "snd (Start e t) = snd (ConsumeRequest e t2 request)" "Options t2 = Options t"
    by blast
  then show ?thesis by simp
qed

subsection \<open>Two runs of the example\<close>

lemmas line_defs =
  consumeRead_def TrimSuffix_def newline_def consumeLine_def splitLogLine_def
  removeSubsecond_def removeSubsecond_loop.simps IsDigit_def rememberLastTimestamp_def
  shouldSkip_def Print_def sprint_def Fprint_out_def tmpl0_def options0_def Let_def

text \<open>
  The example tail, resumed at \<^verbatim>\<open>2024-01-02T03:04:05Z\<close> with three lines to skip: the
  request asks for the lines since that second, the three lines of that second are
  skipped, the line of the next second is printed, and the broken connection is returned.
\<close>

lemma example_run_resumed:
  "(case Start env0
       (tail0\<lparr>resumeRequest := Some \<lparr>Timestamp = ''2024-01-02T03:04:05Z'', LinesToSkip = 3\<rparr>,
              Options := (Options tail0)\<lparr>SinceTime := Some 1704164645000000000,
                                         SinceSeconds := None, TailLines := None\<rparr>\<rparr>) of
      (res, t') \<Rightarrow>
        res = Some (Err ''connection reset'') \<and>
        effects t' =
          [GetLogs ''default'' ''web-0''
             \<lparr>Follow_req = True, Timestamps_req = True, Container_req = ''app'',
              SinceSeconds_req = None, SinceTime_req = Some 1704164645000000000,
              TailLines_req = None\<rparr>,
           Out (''two'' @ newline)] \<and>
        last_seen t' = \<lparr>timestamp = ''2024-01-02T03:04:06Z'', lines = 1\<rparr> \<and>
        resumeRequest t' = Some \<lparr>Timestamp = ''2024-01-02T03:04:05Z'', LinesToSkip = 0\<rparr>)"
proof -
  let ?req = "\<lparr>Follow_req = True, Timestamps_req = True, Container_req = ''app'',
              SinceSeconds_req = None, SinceTime_req = Some 1704164645000000000,
              TailLines_req = None\<rparr>"
  let ?opts = "options0\<lparr>SinceTime := Some 1704164645000000000,
                         SinceSeconds := None, TailLines := None\<rparr>"
  define T0 where "T0 =
    tail0\<lparr>resumeRequest := Some \<lparr>Timestamp = ''2024-01-02T03:04:05Z'', LinesToSkip = 3\<rparr>,
          Options := ?opts, effects := [GetLogs ''default'' ''web-0'' ?req]\<rparr>"
  have f: "Options T0 = ?opts" "otelEnabled T0 = False" "otelExporter T0 = None"
    "tmpl T0 = tmpl0" "effects T0 = [GetLogs ''default'' ''web-0'' ?req]"
    "last_seen T0 = \<lparr>timestamp = [], lines = 0\<rparr>"
    "resumeRequest T0 = Some \<lparr>Timestamp = ''2024-01-02T03:04:05Z'', LinesToSkip = 3\<rparr>"
    by (simp_all add: T0_def tail0_def NewTail_def)
  have start: "Start env0
       (tail0\<lparr>resumeRequest := Some \<lparr>Timestamp = ''2024-01-02T03:04:05Z'', LinesToSkip = 3\<rparr>,
              Options := (Options tail0)\<lparr>SinceTime := Some 1704164645000000000,
                                         SinceSeconds := None, TailLines := None\<rparr>\<rparr>)
     = (Some (Err ''connection reset''), foldl (consumeRead env0) T0 reads0)"
    by (simp add: Start_def printStarting_def ConsumeRequest_def consumeRead_def [of _ _ "([], 0)"]
        Let_def T0_def env0_def tail0_def NewTail_def options0_def pod0_def)
  define T1 where "T1 = consumeRead env0 T0 (''2024-01-02T03:04:05.1Z a'' @ newline, 0)"
  define T2 where "T2 = consumeRead env0 T1 (''2024-01-02T03:04:05.2Z b'' @ newline, 0)"
  define T3 where "T3 = consumeRead env0 T2 (''2024-01-02T03:04:05.3Z c'' @ newline, 0)"
  define T4 where "T4 = consumeRead env0 T3 (''2024-01-02T03:04:06.25Z two'' @ newline, 0)"
  have r1: "T1 = T0\<lparr>last_seen := \<lparr>timestamp = ''2024-01-02T03:04:05Z'', lines = 1\<rparr>,
      resumeRequest := Some \<lparr>Timestamp = ''2024-01-02T03:04:05Z'', LinesToSkip = 2\<rparr>\<rparr>"
    unfolding T1_def by (simp add: line_defs f)
  have r2: "T2 = T0\<lparr>last_seen := \<lparr>timestamp = ''2024-01-02T03:04:05Z'', lines = 2\<rparr>,
      resumeRequest := Some \<lparr>Timestamp = ''2024-01-02T03:04:05Z'', LinesToSkip = 1\<rparr>\<rparr>"
    unfolding T2_def r1 by (simp add: line_defs f)
  have r3: "T3 = T0\<lparr>last_seen := \<lparr>timestamp = ''2024-01-02T03:04:05Z'', lines = 3\<rparr>,
      resumeRequest := Some \<lparr>Timestamp = ''2024-01-02T03:04:05Z'', LinesToSkip = 0\<rparr>\<rparr>"
    unfolding T3_def r2 by (simp add: line_defs f)
  have r4: "T4 = T0\<lparr>last_seen := \<lparr>timestamp = ''2024-01-02T03:04:06Z'', lines = 1\<rparr>,
      resumeRequest := Some \<lparr>Timestamp = ''2024-01-02T03:04:05Z'', LinesToSkip = 0\<rparr>,
      effects := [GetLogs ''default'' ''web-0'' ?req, Out (''two'' @ newline)]\<rparr>"
    unfolding T4_def r3 by (simp add: line_defs f)
  have "foldl (consumeRead env0) T0 reads0 = T4"
    by (simp only: reads0_def foldl.simps T1_def T2_def T3_def T4_def)
  then show ?thesis
    unfolding start by (simp add: r4)
qed

text \<open>
  The example tail after the note of a failed resume, started plainly: the request is the
  one of the options, every line is printed, and no resume request appears.
\<close>

lemma example_run_fallback:
  "(case Start env0 (Fprint_errOut tail0
        (''failed to resume: '' @ Error (Err ''cannot parse'') @ '', fallback to Start()'' @ newline)) of
      (res, t') \<Rightarrow>
        res = Some (Err ''connection reset'') \<and>
        effects t' =
          [ErrOut (''failed to resume: cannot parse, fallback to Start()'' @ newline),
           GetLogs ''default'' ''web-0''
             \<lparr>Follow_req = True, Timestamps_req = True, Container_req = ''app'',
              SinceSeconds_req = Some 172800, SinceTime_req = None,
              TailLines_req = Some 10\<rparr>,
           Out (''a'' @ newline), Out (''b'' @ newline), Out (''c'' @ newline),
           Out (''two'' @ newline)] \<and>
        last_seen t' = \<lparr>timestamp = ''2024-01-02T03:04:06Z'', lines = 1\<rparr> \<and>
        resumeRequest t' = None)"
proof -
  let ?req = "\<lparr>Follow_req = True, Timestamps_req = True, Container_req = ''app'',
              SinceSeconds_req = Some 172800, SinceTime_req = None,
              TailLines_req = Some 10\<rparr>"
  let ?written = "ErrOut (''failed to resume: cannot parse, fallback to Start()'' @ newline)"
  define T0 where "T0 = tail0\<lparr>effects := [?written, GetLogs ''default'' ''web-0'' ?req]\<rparr>"
  have f: "Options T0 = options0" "otelEnabled T0 = False" "otelExporter T0 = None"
    "tmpl T0 = tmpl0" "effects T0 = [?written, GetLogs ''default'' ''web-0'' ?req]"
    "last_seen T0 = \<lparr>timestamp = [], lines = 0\<rparr>" "resumeRequest T0 = None"
    by (simp_all add: T0_def tail0_def NewTail_def)
  have start: "Start env0 (Fprint_errOut tail0
        (''failed to resume: '' @ Error (Err ''cannot parse'') @ '', fallback to Start()'' @ newline))
     = (Some (Err ''connection reset''), foldl (consumeRead env0) T0 reads0)"
    by (simp add: Start_def printStarting_def ConsumeRequest_def consumeRead_def [of _ _ "([], 0)"]
        Fprint_errOut_def Let_def T0_def env0_def tail0_def NewTail_def options0_def pod0_def)
  define T1 where "T1 = consumeRead env0 T0 (''2024-01-02T03:04:05.1Z a'' @ newline, 0)"
  define T2 where "T2 = consumeRead env0 T1 (''2024-01-02T03:04:05.2Z b'' @ newline, 0)"
  define T3 where "T3 = consumeRead env0 T2 (''2024-01-02T03:04:05.3Z c'' @ newline, 0)"
  define T4 where "T4 = consumeRead env0 T3 (''2024-01-02T03:04:06.25Z two'' @ newline, 0)"
  have r1: "T1 = T0\<lparr>last_seen := \<lparr>timestamp = ''2024-01-02T03:04:05Z'', lines = 1\<rparr>,
      effects := [?written, GetLogs ''default'' ''web-0'' ?req, Out (''a'' @ newline)]\<rparr>"
    unfolding T1_def by (simp add: line_defs f)
  have r2: "T2 = T0\<lparr>last_seen := \<lparr>timestamp = ''2024-01-02T03:04:05Z'', lines = 2\<rparr>,
      effects := [?written, GetLogs ''default'' ''web-0'' ?req, Out (''a'' @ newline),
                  Out (''b'' @ newline)]\<rparr>"
    unfolding T2_def r1 by (simp add: line_defs f)
  have r3: "T3 = T0\<lparr>last_seen := \<lparr>timestamp = ''2024-01-02T03:04:05Z'', lines = 3\<rparr>,
      effects := [?written, GetLogs ''default'' ''web-0'' ?req, Out (''a'' @ newline),
                  Out (''b'' @ newline), Out (''c'' @ newline)]\<rparr>"
    unfolding T3_def r2 by (simp add: line_defs f)
  have r4: "T4 = T0\<lparr>last_seen := \<lparr>timestamp = ''2024-01-02T03:04:06Z'', lines = 1\<rparr>,
      effects := [?written, GetLogs ''default'' ''web-0'' ?req, Out (''a'' @ newline),
                  Out (''b'' @ newline), Out (''c'' @ newline), Out (''two'' @ newline)]\<rparr>"
    unfolding T4_def r3 by (simp add: line_defs f)
  have "foldl (consumeRead env0) T0 reads0 = T4"
    by (simp only: reads0_def foldl.simps T1_def T2_def T3_def T4_def)
  then show ?thesis
    unfolding start by (simp add: r4 f)
qed

subsection \<open>Resume and the resume token\<close>

text \<open>
  C8, with the guard of \<^verbatim>\<open>GetResumeRequest\<close> on the empty timestamp added. When the
  timestamp of the request parses, \<^verbatim>\<open>Resume\<close> is \<^verbatim>\<open>Start\<close> on the tail with the request
  installed and with \<^verbatim>\<open>SinceTime\<close> set to the parsed time, \<^verbatim>\<open>SinceSeconds\<close> and
  \<^verbatim>\<open>TailLines\<close> set to nil; the \<^verbatim>\<open>GetLogs\<close> request it sends carries exactly these three
  values. A tail whose watermark has a timestamp other than the empty string gives the
  watermark as its resume request, so the watermark \<open>{T, 3}\<close> gives the request \<open>{T, 3}\<close>
  when \<open>T\<close> is not empty; a tail whose watermark has the empty timestamp gives nil.
\<close>

theorem Resume_since_and_resume_token:
  assumes "ParseRFC3339 e (Timestamp r) = Inr since"
  shows "Resume e t (Some r) =
           Inr (Start e (t\<lparr>resumeRequest := Some r,
                           Options := (Options t)\<lparr>SinceTime := Some since,
                                                    SinceSeconds := None,
                                                    TailLines := None\<rparr>\<rparr>))
       \<and> (\<exists>res t'. Resume e t (Some r) = Inr (res, t') \<and>
             GetLogs (Namespace (Pod t)) (Name (Pod t))
               \<lparr>Follow_req = Follow (Options t), Timestamps_req = True,
                Container_req = ContainerName t, SinceSeconds_req = None,
                SinceTime_req = Some since, TailLines_req = None\<rparr>
             \<in> set (effects t'))
       \<and> (timestamp (last_seen u) \<noteq> [] \<longrightarrow>
             GetResumeRequest u =
               Some \<lparr>Timestamp = timestamp (last_seen u), LinesToSkip = lines (last_seen u)\<rparr>)
       \<and> (T \<noteq> [] \<longrightarrow>
             GetResumeRequest (u\<lparr>last_seen := \<lparr>timestamp = T, lines = 3\<rparr>\<rparr>) =
               Some \<lparr>Timestamp = T, LinesToSkip = 3\<rparr>)
       \<and> (timestamp (last_seen u) = [] \<longrightarrow> GetResumeRequest u = None)"
proof -
  let ?t = "t\<lparr>resumeRequest := Some r,
              Options := (Options t)\<lparr>SinceTime := Some since, SinceSeconds := None,
                                       TailLines := None\<rparr>\<rparr>"
  have resume: "Resume e t (Some r) = Inr (Start e ?t)"
    using assms by (simp add: Resume_def sinceTime_def)
  have "GetLogs (Namespace (Pod ?t)) (Name (Pod ?t))
     \<lparr>Follow_req = Follow (Options ?t), Timestamps_req = True, Container_req = ContainerName ?t,
      SinceSeconds_req = SinceSeconds (Options ?t), SinceTime_req = SinceTime (Options ?t),
      TailLines_req = TailLines (Options ?t)\<rparr>
   \<in> set (effects (snd (Start e ?t)))"
    by (rule Start_request)
  then have "GetLogs (Namespace (Pod t)) (Name (Pod t))
               \<lparr>Follow_req = Follow (Options t), Timestamps_req = True,
                Container_req = ContainerName t, SinceSeconds_req = None,
                SinceTime_req = Some since, TailLines_req = None\<rparr>
             \<in> set (effects (snd (Start e ?t)))"
    by simp
  with resume have opened: "\<exists>res t'. Resume e t (Some r) = Inr (res, t') \<and>
             GetLogs (Namespace (Pod t)) (Name (Pod t))
               \<lparr>Follow_req = Follow (Options t), Timestamps_req = True,
                Container_req = ContainerName t, SinceSeconds_req = None,
                SinceTime_req = Some since, TailLines_req = None\<rparr>
             \<in> set (effects t')"
    by (cases "Start e ?t") auto
  show ?thesis
    using resume opened by (simp add: GetResumeRequest_def)
qed

text \<open>
  The theorem on the example: resumed with \<open>{2024-01-02T03:04:05Z, 3}\<close>, the tail asks for
  the lines since that second, skips the three lines of it that the stream sends again and
  prints the new line; a tail with that watermark gives that request, and a new tail gives
  nil.
\<close>

theorem Resume_since_and_resume_token_witness:
  "(case Resume env0 tail0 (Some \<lparr>Timestamp = ''2024-01-02T03:04:05Z'', LinesToSkip = 3\<rparr>) of
      Inl p \<Rightarrow> False
    | Inr (res, t') \<Rightarrow>
        res = Some (Err ''connection reset'') \<and>
        effects t' =
          [GetLogs ''default'' ''web-0''
             \<lparr>Follow_req = True, Timestamps_req = True, Container_req = ''app'',
              SinceSeconds_req = None, SinceTime_req = Some 1704164645000000000,
              TailLines_req = None\<rparr>,
           Out (''two'' @ newline)])
   \<and> GetResumeRequest (tail0\<lparr>last_seen := \<lparr>timestamp = ''2024-01-02T03:04:05Z'', lines = 3\<rparr>\<rparr>)
       = Some \<lparr>Timestamp = ''2024-01-02T03:04:05Z'', LinesToSkip = 3\<rparr>
   \<and> GetResumeRequest tail0 = None"
proof -
  have parse: "ParseRFC3339 env0 (Timestamp \<lparr>Timestamp = ''2024-01-02T03:04:05Z'', LinesToSkip = 3\<rparr>)
      = Inr 1704164645000000000"
    by (simp add: env0_def)
  note th = Resume_since_and_resume_token [OF parse, of tail0 tail0 "''2024-01-02T03:04:05Z''"]
  from th have resumed:
    "Resume env0 tail0 (Some \<lparr>Timestamp = ''2024-01-02T03:04:05Z'', LinesToSkip = 3\<rparr>) =
       Inr (Start env0
         (tail0\<lparr>resumeRequest := Some \<lparr>Timestamp = ''2024-01-02T03:04:05Z'', LinesToSkip = 3\<rparr>,
                Options := (Options tail0)\<lparr>SinceTime := Some 1704164645000000000,
                                           SinceSeconds := None, TailLines := None\<rparr>\<rparr>))"
    by blast
  from th have token3:
    "GetResumeRequest (tail0\<lparr>last_seen := \<lparr>timestamp = ''2024-01-02T03:04:05Z'', lines = 3\<rparr>\<rparr>)
       = Some \<lparr>Timestamp = ''2024-01-02T03:04:05Z'', LinesToSkip = 3\<rparr>"
    by simp
  have "timestamp (last_seen tail0) = []" by (simp add: tail0_def NewTail_def)
  with th have token0: "GetResumeRequest tail0 = None" by blast
  show ?thesis
    unfolding resumed using example_run_resumed token3 token0
    by (simp split: prod.splits)
qed

text \<open>
  Without the guard the statement fails. Three lines that begin with a space have the empty
  timestamp: a new tail that consumes them holds the watermark with the empty timestamp
  and the count 3, and gives nil, not a request with the count 3.
\<close>

theorem GetResumeRequest_empty_timestamp_counterexample:
  "last_seen (foldl (consumeLine env0 0) tail0 ['' a'', '' b'', '' c''])
     = \<lparr>timestamp = [], lines = 3\<rparr>
   \<and> GetResumeRequest (foldl (consumeLine env0 0) tail0 ['' a'', '' b'', '' c'']) = None
   \<and> GetResumeRequest (foldl (consumeLine env0 0) tail0 ['' a'', '' b'', '' c''])
       \<noteq> Some \<lparr>Timestamp = [], LinesToSkip = 3\<rparr>"
  by (simp add: GetResumeRequest_def consumeLine_last_seen last_seen_rememberLastTimestamp
      splitLogLine_def removeSubsecond_def tail0_def NewTail_def)

subsection \<open>A resume that falls back\<close>

text \<open>
  \<^verbatim>\<open>consumeLine\<close> is the observation, the skip decision and, for a line not skipped,
  \<open>consumeLine_unskipped\<close>; on a tail without a resume request it is the observation and
  \<open>consumeLine_unskipped\<close>.
\<close>

lemma consumeLine_unfold:
  "consumeLine e now t line =
     (case splitLogLine line of
        Inl err \<Rightarrow> PrintWithoutHighlight t (''['' @ Error err @ ''] '' @ line)
      | Inr (rfc3339Nano, content) \<Rightarrow>
          (let rfc3339 = removeSubsecond rfc3339Nano;
               t1 = rememberLastTimestamp t rfc3339;
               (skip, r) = shouldSkip (resumeRequest t1) rfc3339;
               t2 = t1\<lparr>resumeRequest := r\<rparr>
           in if skip then t2
              else consumeLine_unskipped e now t2 line rfc3339Nano content))"
  unfolding consumeLine_def consumeLine_unskipped_def ..

lemma consumeLine_no_request_unskipped:
  assumes "resumeRequest u = None" "splitLogLine line = Inr (rfc3339Nano, content)"
  shows "consumeLine e now u line =
     consumeLine_unskipped e now (rememberLastTimestamp u (removeSubsecond rfc3339Nano))
       line rfc3339Nano content"
proof -
  let ?t1 = "rememberLastTimestamp u (removeSubsecond rfc3339Nano)"
  have n: "resumeRequest ?t1 = None" using assms(1) by simp
  then have same: "?t1\<lparr>resumeRequest := None\<rparr> = ?t1" by (cases ?t1) simp
  show ?thesis
    unfolding consumeLine_unfold assms(2) by (simp add: Let_def assms(1) shouldSkip_def same)
qed


lemma Fprint_errOut_frame [simp]:
  "Pod (Fprint_errOut t s) = Pod t"
  "ContainerName (Fprint_errOut t s) = ContainerName t"
  "effects (Fprint_errOut t s) = effects t @ [ErrOut s]"
  by (simp_all add: Fprint_errOut_def)

lemma ConsumeRequest_reads:
  "ConsumeRequest e t (Inr s) =
     (if final_err s \<noteq> EOF then Some (final_err s) else None,
      foldl (consumeRead e) t (reads s @ [final_read s]))"
  by (simp add: ConsumeRequest_def)

lemma Start_eq:
  "Start e t =
     (case ConsumeRequest e
             ((printStarting e t)\<lparr>effects := effects (printStarting e t) @
                [GetLogs (Namespace (Pod t)) (Name (Pod t))
                   \<lparr>Follow_req = Follow (Options t), Timestamps_req = True,
                    Container_req = ContainerName t,
                    SinceSeconds_req = SinceSeconds (Options t),
                    SinceTime_req = SinceTime (Options t),
                    TailLines_req = TailLines (Options t)\<rparr>]\<rparr>)
             (Stream e (Namespace (Pod t)) (Name (Pod t))
                \<lparr>Follow_req = Follow (Options t), Timestamps_req = True,
                 Container_req = ContainerName t,
                 SinceSeconds_req = SinceSeconds (Options t),
                 SinceTime_req = SinceTime (Options t),
                 TailLines_req = TailLines (Options t)\<rparr>) of
        (err, t3) \<Rightarrow> if err = Some Canceled then (None, t3) else (err, t3))"
  by (simp add: Start_def Let_def)

text \<open>
  C10, for a tail that holds no resume request. When the timestamp of the request does not
  parse, \<^verbatim>\<open>Resume\<close> is \<^verbatim>\<open>Start\<close> on the tail \<open>t0\<close> on which the note
  \<^verbatim>\<open>failed to resume: ..., fallback to Start()\<close> was written to \<^verbatim>\<open>errOut\<close>. The request is
  not installed and the options are not touched: the read loop starts on the tail \<open>t2\<close>,
  which holds the request and the options the tail had, after the \<^verbatim>\<open>GetLogs\<close> request \<open>req\<close>
  with the \<^verbatim>\<open>SinceTime\<close>, \<^verbatim>\<open>SinceSeconds\<close> and \<^verbatim>\<open>TailLines\<close> the tail had. If the tail
  held no resume request, as \<^verbatim>\<open>NewTail\<close> leaves it, none of the lines read is skipped:
  whatever the stream, each read \<open>rd\<close> of it that brings a line which splits is consumed on
  a tail without a request, and the result is what \<^verbatim>\<open>consumeLine\<close> does with a line it has
  not skipped, on the tail after the observation; the tail holds no request at the end.
\<close>

theorem Resume_fallback_to_Start:
  assumes "ParseRFC3339 e (Timestamp r) = Inl err"
    and "t0 = Fprint_errOut t
                (''failed to resume: '' @ Error err @ '', fallback to Start()'' @ newline)"
    and "req = \<lparr>Follow_req = Follow (Options t), Timestamps_req = True,
                 Container_req = ContainerName t, SinceSeconds_req = SinceSeconds (Options t),
                 SinceTime_req = SinceTime (Options t), TailLines_req = TailLines (Options t)\<rparr>"
    and "t2 = (printStarting e t0)\<lparr>effects := effects (printStarting e t0) @
                 [GetLogs (Namespace (Pod t)) (Name (Pod t)) req]\<rparr>"
  shows "Resume e t (Some r) = Inr (Start e t0)
       \<and> Start e t0 =
           (case ConsumeRequest e t2 (Stream e (Namespace (Pod t)) (Name (Pod t)) req) of
              (err', t3) \<Rightarrow> if err' = Some Canceled then (None, t3) else (err', t3))
       \<and> (ErrOut (''failed to resume: '' @ Error err @ '', fallback to Start()'' @ newline)
              \<in> set (effects t2)
            \<and> GetLogs (Namespace (Pod t)) (Name (Pod t)) req \<in> set (effects t2)
            \<and> set (effects t2) \<subseteq> set (effects (snd (Start e t0)))
            \<and> resumeRequest t2 = resumeRequest t
            \<and> Options t2 = Options t
            \<and> Options (snd (Start e t0)) = Options t)
       \<and> (resumeRequest t = None \<longrightarrow>
            resumeRequest (snd (Start e t0)) = None
            \<and> (\<forall>s rds rd rest rfc3339Nano content.
                  Stream e (Namespace (Pod t)) (Name (Pod t)) req = Inr s
                  \<and> reads s @ [final_read s] = rds @ rd # rest
                  \<and> fst rd \<noteq> []
                  \<and> splitLogLine (TrimSuffix (fst rd) newline) = Inr (rfc3339Nano, content)
                  \<longrightarrow>
                  resumeRequest (foldl (consumeRead e) t2 rds) = None
                  \<and> consumeRead e (foldl (consumeRead e) t2 rds) rd =
                      consumeLine_unskipped e (snd rd)
                        (rememberLastTimestamp (foldl (consumeRead e) t2 rds)
                           (removeSubsecond rfc3339Nano))
                        (TrimSuffix (fst rd) newline) rfc3339Nano content))"
proof (intro conjI impI allI)
  let ?written = "''failed to resume: '' @ Error err @ '', fallback to Start()'' @ newline"
  have frame0: "Pod t0 = Pod t" "ContainerName t0 = ContainerName t" "Options t0 = Options t"
    "resumeRequest t0 = resumeRequest t"
    by (simp_all add: assms(2))
  show "Resume e t (Some r) = Inr (Start e t0)"
    using assms(1) by (simp add: Resume_def sinceTime_def assms(2))
  show start: "Start e t0 =
           (case ConsumeRequest e t2 (Stream e (Namespace (Pod t)) (Name (Pod t)) req) of
              (err', t3) \<Rightarrow> if err' = Some Canceled then (None, t3) else (err', t3))"
    unfolding assms(3,4) by (subst Start_eq) (simp only: frame0)
  have snd_start: "snd (Start e t0) =
      snd (ConsumeRequest e t2 (Stream e (Namespace (Pod t)) (Name (Pod t)) req))"
    unfolding start by (simp split: prod.splits)
  show "ErrOut ?written \<in> set (effects t2)"
    using effects_printStarting [of t0 e] by (auto simp: assms(4) assms(2))
  show "GetLogs (Namespace (Pod t)) (Name (Pod t)) req \<in> set (effects t2)"
    by (simp add: assms(4))
  show "set (effects t2) \<subseteq> set (effects (snd (Start e t0)))"
    unfolding snd_start by (rule effects_ConsumeRequest)
  show r2: "resumeRequest t2 = resumeRequest t"
    by (simp add: assms(4) frame0)
  show "Options t2 = Options t"
    by (simp add: assms(4) frame0)
  then show "Options (snd (Start e t0)) = Options t"
    unfolding snd_start by simp
next
  assume none: "resumeRequest t = None"
  have r2: "resumeRequest t2 = None"
    using none by (simp add: assms(4) assms(2))
  have snd_start: "snd (Start e t0) =
      snd (ConsumeRequest e
             ((printStarting e t0)\<lparr>effects := effects (printStarting e t0) @
                [GetLogs (Namespace (Pod t0)) (Name (Pod t0))
                   \<lparr>Follow_req = Follow (Options t0), Timestamps_req = True,
                    Container_req = ContainerName t0,
                    SinceSeconds_req = SinceSeconds (Options t0),
                    SinceTime_req = SinceTime (Options t0),
                    TailLines_req = TailLines (Options t0)\<rparr>]\<rparr>)
             (Stream e (Namespace (Pod t0)) (Name (Pod t0))
                \<lparr>Follow_req = Follow (Options t0), Timestamps_req = True,
                 Container_req = ContainerName t0,
                 SinceSeconds_req = SinceSeconds (Options t0),
                 SinceTime_req = SinceTime (Options t0),
                 TailLines_req = TailLines (Options t0)\<rparr>))"
    by (subst Start_eq) (simp split: prod.splits)
  show "resumeRequest (snd (Start e t0)) = None"
    unfolding snd_start
    by (rule ConsumeRequest_no_request) (use none in \<open>simp add: assms(2)\<close>)
next
  fix s rds rd rest rfc3339Nano content
  assume none: "resumeRequest t = None"
    and h: "Stream e (Namespace (Pod t)) (Name (Pod t)) req = Inr s
            \<and> reads s @ [final_read s] = rds @ rd # rest
            \<and> fst rd \<noteq> []
            \<and> splitLogLine (TrimSuffix (fst rd) newline) = Inr (rfc3339Nano, content)"
  have r2: "resumeRequest t2 = None"
    using none by (simp add: assms(4) assms(2))
  then show u: "resumeRequest (foldl (consumeRead e) t2 rds) = None"
    by (rule reads_no_request)
  have "consumeRead e (foldl (consumeRead e) t2 rds) rd =
      consumeLine e (snd rd) (foldl (consumeRead e) t2 rds) (TrimSuffix (fst rd) newline)"
    using h by (simp add: consumeRead_def)
  also have "\<dots> = consumeLine_unskipped e (snd rd)
                        (rememberLastTimestamp (foldl (consumeRead e) t2 rds)
                           (removeSubsecond rfc3339Nano))
                        (TrimSuffix (fst rd) newline) rfc3339Nano content"
    using u h by (intro consumeLine_no_request_unskipped) simp_all
  finally show "consumeRead e (foldl (consumeRead e) t2 rds) rd =
                      consumeLine_unskipped e (snd rd)
                        (rememberLastTimestamp (foldl (consumeRead e) t2 rds)
                           (removeSubsecond rfc3339Nano))
                        (TrimSuffix (fst rd) newline) rfc3339Nano content" .
qed

text \<open>
  The theorem on the example: \<^verbatim>\<open>2024-01-02T03:04:05\<close>, which is what \<^verbatim>\<open>removeSubsecond\<close>
  leaves of a timestamp with a numeric offset, does not parse; the note is written, the
  request is the one of the options, all four lines of the stream are printed, and the
  first of them is consumed unskipped.
\<close>

theorem Resume_fallback_to_Start_witness:
  "(case Resume env0 tail0 (Some \<lparr>Timestamp = ''2024-01-02T03:04:05'', LinesToSkip = 3\<rparr>) of
      Inl p \<Rightarrow> False
    | Inr (res, t') \<Rightarrow>
        res = Some (Err ''connection reset'') \<and>
        effects t' =
          [ErrOut (''failed to resume: cannot parse, fallback to Start()'' @ newline),
           GetLogs ''default'' ''web-0''
             \<lparr>Follow_req = True, Timestamps_req = True, Container_req = ''app'',
              SinceSeconds_req = Some 172800, SinceTime_req = None,
              TailLines_req = Some 10\<rparr>,
           Out (''a'' @ newline), Out (''b'' @ newline), Out (''c'' @ newline),
           Out (''two'' @ newline)] \<and>
        resumeRequest t' = None)
   \<and> consumeRead env0
        (tail0\<lparr>effects :=
           [ErrOut (''failed to resume: cannot parse, fallback to Start()'' @ newline),
            GetLogs ''default'' ''web-0''
              \<lparr>Follow_req = True, Timestamps_req = True, Container_req = ''app'',
               SinceSeconds_req = Some 172800, SinceTime_req = None,
               TailLines_req = Some 10\<rparr>]\<rparr>)
        (''2024-01-02T03:04:05.1Z a'' @ newline, 0)
     = consumeLine_unskipped env0 0
        (tail0\<lparr>effects :=
           [ErrOut (''failed to resume: cannot parse, fallback to Start()'' @ newline),
            GetLogs ''default'' ''web-0''
              \<lparr>Follow_req = True, Timestamps_req = True, Container_req = ''app'',
               SinceSeconds_req = Some 172800, SinceTime_req = None,
               TailLines_req = Some 10\<rparr>],
          last_seen := \<lparr>timestamp = ''2024-01-02T03:04:05Z'', lines = 1\<rparr>\<rparr>)
        ''2024-01-02T03:04:05.1Z a'' ''2024-01-02T03:04:05.1Z'' ''a''"
proof -
  let ?bad = "\<lparr>Timestamp = ''2024-01-02T03:04:05'', LinesToSkip = 3\<rparr>"
  let ?s = "\<lparr>reads = reads0, final_read = ([], 0), final_err = Err ''connection reset''\<rparr>"
  let ?rd = "(''2024-01-02T03:04:05.1Z a'' @ newline, 0 :: time)"
  have parse: "ParseRFC3339 env0 (Timestamp ?bad) = Inl (Err ''cannot parse'')"
    by (simp add: env0_def)
  note th = Resume_fallback_to_Start [OF parse refl refl refl, of tail0]
  have none0: "resumeRequest tail0 = None" by (simp add: tail0_def NewTail_def)
  note unskipped = th [THEN conjunct2, THEN conjunct2, THEN conjunct2, THEN mp, OF none0,
      THEN conjunct2, rule_format, of ?s "[]" ?rd "tl reads0 @ [([], 0)]"
        "''2024-01-02T03:04:05.1Z''" "''a''", THEN conjunct2]
  have resumed: "Resume env0 tail0 (Some ?bad) =
       Inr (Start env0 (Fprint_errOut tail0
              (''failed to resume: '' @ Error (Err ''cannot parse'') @ '', fallback to Start()'' @
               newline)))"
    by (rule th [THEN conjunct1])
  have run: "case Resume env0 tail0 (Some ?bad) of
      Inl p \<Rightarrow> False
    | Inr (res, t') \<Rightarrow>
        res = Some (Err ''connection reset'') \<and>
        effects t' =
          [ErrOut (''failed to resume: cannot parse, fallback to Start()'' @ newline),
           GetLogs ''default'' ''web-0''
             \<lparr>Follow_req = True, Timestamps_req = True, Container_req = ''app'',
              SinceSeconds_req = Some 172800, SinceTime_req = None,
              TailLines_req = Some 10\<rparr>,
           Out (''a'' @ newline), Out (''b'' @ newline), Out (''c'' @ newline),
           Out (''two'' @ newline)] \<and>
        resumeRequest t' = None"
    unfolding resumed using example_run_fallback by (simp split: prod.splits)
  have first: "consumeRead env0
        (tail0\<lparr>effects :=
           [ErrOut (''failed to resume: cannot parse, fallback to Start()'' @ newline),
            GetLogs ''default'' ''web-0''
              \<lparr>Follow_req = True, Timestamps_req = True, Container_req = ''app'',
               SinceSeconds_req = Some 172800, SinceTime_req = None,
               TailLines_req = Some 10\<rparr>]\<rparr>)
        (''2024-01-02T03:04:05.1Z a'' @ newline, 0)
     = consumeLine_unskipped env0 0
        (tail0\<lparr>effects :=
           [ErrOut (''failed to resume: cannot parse, fallback to Start()'' @ newline),
            GetLogs ''default'' ''web-0''
              \<lparr>Follow_req = True, Timestamps_req = True, Container_req = ''app'',
               SinceSeconds_req = Some 172800, SinceTime_req = None,
               TailLines_req = Some 10\<rparr>],
          last_seen := \<lparr>timestamp = ''2024-01-02T03:04:05Z'', lines = 1\<rparr>\<rparr>)
        ''2024-01-02T03:04:05.1Z a'' ''2024-01-02T03:04:05.1Z'' ''a''"
    using unskipped
    by (simp add: env0_def reads0_def tail0_def NewTail_def options0_def pod0_def
        printStarting_def Fprint_errOut_def TrimSuffix_def newline_def splitLogLine_def
        removeSubsecond_def removeSubsecond_loop.simps IsDigit_def rememberLastTimestamp_def)
  from run first show ?thesis by (rule conjI)
qed

text \<open>
  A tail that holds a resume request keeps it through the fallback, and lines are skipped.
  The example tail, resumed with five lines of \<^verbatim>\<open>2024-01-02T03:04:05Z\<close> to skip, skips the
  three the stream sends and is left with two to skip. Resumed again, now with a timestamp
  that does not parse, it writes the note and starts plainly, and of the stream it skips the
  lines \<^verbatim>\<open>a\<close> and \<^verbatim>\<open>b\<close>: only \<^verbatim>\<open>c\<close> and \<^verbatim>\<open>two\<close> are printed.
\<close>

theorem Resume_fallback_skips_counterexample:
  "Resume env0 tail0 (Some \<lparr>Timestamp = ''2024-01-02T03:04:05Z'', LinesToSkip = 5\<rparr>)
     = Inr (Some (Err ''connection reset''),
            tail0\<lparr>Options := options0\<lparr>SinceTime := Some 1704164645000000000,
                                         SinceSeconds := None, TailLines := None\<rparr>,
                  last_seen := \<lparr>timestamp = ''2024-01-02T03:04:06Z'', lines = 1\<rparr>,
                  resumeRequest := Some \<lparr>Timestamp = ''2024-01-02T03:04:05Z'', LinesToSkip = 2\<rparr>,
                  effects :=
                    [GetLogs ''default'' ''web-0''
                       \<lparr>Follow_req = True, Timestamps_req = True, Container_req = ''app'',
                        SinceSeconds_req = None, SinceTime_req = Some 1704164645000000000,
                        TailLines_req = None\<rparr>,
                     Out (''two'' @ newline)]\<rparr>)
   \<and> Resume env0
        (tail0\<lparr>Options := options0\<lparr>SinceTime := Some 1704164645000000000,
                                      SinceSeconds := None, TailLines := None\<rparr>,
               last_seen := \<lparr>timestamp = ''2024-01-02T03:04:06Z'', lines = 1\<rparr>,
               resumeRequest := Some \<lparr>Timestamp = ''2024-01-02T03:04:05Z'', LinesToSkip = 2\<rparr>,
               effects :=
                 [GetLogs ''default'' ''web-0''
                    \<lparr>Follow_req = True, Timestamps_req = True, Container_req = ''app'',
                     SinceSeconds_req = None, SinceTime_req = Some 1704164645000000000,
                     TailLines_req = None\<rparr>,
                  Out (''two'' @ newline)]\<rparr>)
        (Some \<lparr>Timestamp = ''2024-01-02T03:04:05'', LinesToSkip = 1\<rparr>)
     = Inr (Some (Err ''connection reset''),
            tail0\<lparr>Options := options0\<lparr>SinceTime := Some 1704164645000000000,
                                         SinceSeconds := None, TailLines := None\<rparr>,
                  last_seen := \<lparr>timestamp = ''2024-01-02T03:04:06Z'', lines = 1\<rparr>,
                  resumeRequest := Some \<lparr>Timestamp = ''2024-01-02T03:04:05Z'', LinesToSkip = 0\<rparr>,
                  effects :=
                    [GetLogs ''default'' ''web-0''
                       \<lparr>Follow_req = True, Timestamps_req = True, Container_req = ''app'',
                        SinceSeconds_req = None, SinceTime_req = Some 1704164645000000000,
                        TailLines_req = None\<rparr>,
                     Out (''two'' @ newline),
                     ErrOut (''failed to resume: cannot parse, fallback to Start()'' @ newline),
                     GetLogs ''default'' ''web-0''
                       \<lparr>Follow_req = True, Timestamps_req = True, Container_req = ''app'',
                        SinceSeconds_req = None, SinceTime_req = Some 1704164645000000000,
                        TailLines_req = None\<rparr>,
                     Out (''c'' @ newline), Out (''two'' @ newline)]\<rparr>)"
proof (rule conjI)
  let ?req = "\<lparr>Follow_req = True, Timestamps_req = True, Container_req = ''app'',
              SinceSeconds_req = None, SinceTime_req = Some 1704164645000000000,
              TailLines_req = None\<rparr>"
  let ?opts = "options0\<lparr>SinceTime := Some 1704164645000000000,
                         SinceSeconds := None, TailLines := None\<rparr>"
  let ?written = "ErrOut (''failed to resume: cannot parse, fallback to Start()'' @ newline)"
  define T0 where "T0 =
    tail0\<lparr>Options := ?opts,
          resumeRequest := Some \<lparr>Timestamp = ''2024-01-02T03:04:05Z'', LinesToSkip = 5\<rparr>,
          effects := [GetLogs ''default'' ''web-0'' ?req]\<rparr>"
  have f: "Options T0 = ?opts" "otelEnabled T0 = False" "otelExporter T0 = None"
    "tmpl T0 = tmpl0" "effects T0 = [GetLogs ''default'' ''web-0'' ?req]"
    "last_seen T0 = \<lparr>timestamp = [], lines = 0\<rparr>"
    "resumeRequest T0 = Some \<lparr>Timestamp = ''2024-01-02T03:04:05Z'', LinesToSkip = 5\<rparr>"
    by (simp_all add: T0_def tail0_def NewTail_def)
  have start: "Resume env0 tail0 (Some \<lparr>Timestamp = ''2024-01-02T03:04:05Z'', LinesToSkip = 5\<rparr>)
     = Inr (Some (Err ''connection reset''), foldl (consumeRead env0) T0 reads0)"
    by (simp add: Resume_def sinceTime_def Start_def printStarting_def ConsumeRequest_def
        consumeRead_def [of _ _ "([], 0)"]
        Let_def T0_def env0_def tail0_def NewTail_def options0_def pod0_def)
  define T1 where "T1 = consumeRead env0 T0 (''2024-01-02T03:04:05.1Z a'' @ newline, 0)"
  define T2 where "T2 = consumeRead env0 T1 (''2024-01-02T03:04:05.2Z b'' @ newline, 0)"
  define T3 where "T3 = consumeRead env0 T2 (''2024-01-02T03:04:05.3Z c'' @ newline, 0)"
  define T4 where "T4 = consumeRead env0 T3 (''2024-01-02T03:04:06.25Z two'' @ newline, 0)"
  have r1: "T1 = T0\<lparr>last_seen := \<lparr>timestamp = ''2024-01-02T03:04:05Z'', lines = 1\<rparr>,
      resumeRequest := Some \<lparr>Timestamp = ''2024-01-02T03:04:05Z'', LinesToSkip = 4\<rparr>\<rparr>"
    unfolding T1_def by (simp add: line_defs f)
  have r2: "T2 = T0\<lparr>last_seen := \<lparr>timestamp = ''2024-01-02T03:04:05Z'', lines = 2\<rparr>,
      resumeRequest := Some \<lparr>Timestamp = ''2024-01-02T03:04:05Z'', LinesToSkip = 3\<rparr>\<rparr>"
    unfolding T2_def r1 by (simp add: line_defs f)
  have r3: "T3 = T0\<lparr>last_seen := \<lparr>timestamp = ''2024-01-02T03:04:05Z'', lines = 3\<rparr>,
      resumeRequest := Some \<lparr>Timestamp = ''2024-01-02T03:04:05Z'', LinesToSkip = 2\<rparr>\<rparr>"
    unfolding T3_def r2 by (simp add: line_defs f)
  have r4: "T4 = T0\<lparr>last_seen := \<lparr>timestamp = ''2024-01-02T03:04:06Z'', lines = 1\<rparr>,
      resumeRequest := Some \<lparr>Timestamp = ''2024-01-02T03:04:05Z'', LinesToSkip = 2\<rparr>,
      effects := [GetLogs ''default'' ''web-0'' ?req, Out (''two'' @ newline)]\<rparr>"
    unfolding T4_def r3 by (simp add: line_defs f)
  have "foldl (consumeRead env0) T0 reads0 = T4"
    by (simp only: reads0_def foldl.simps T1_def T2_def T3_def T4_def)
  then show "Resume env0 tail0 (Some \<lparr>Timestamp = ''2024-01-02T03:04:05Z'', LinesToSkip = 5\<rparr>)
     = Inr (Some (Err ''connection reset''),
            tail0\<lparr>Options := ?opts,
                  last_seen := \<lparr>timestamp = ''2024-01-02T03:04:06Z'', lines = 1\<rparr>,
                  resumeRequest := Some \<lparr>Timestamp = ''2024-01-02T03:04:05Z'', LinesToSkip = 2\<rparr>,
                  effects := [GetLogs ''default'' ''web-0'' ?req, Out (''two'' @ newline)]\<rparr>)"
    unfolding start by (simp add: r4 T0_def)
next
  let ?req = "\<lparr>Follow_req = True, Timestamps_req = True, Container_req = ''app'',
              SinceSeconds_req = None, SinceTime_req = Some 1704164645000000000,
              TailLines_req = None\<rparr>"
  let ?opts = "options0\<lparr>SinceTime := Some 1704164645000000000,
                         SinceSeconds := None, TailLines := None\<rparr>"
  let ?written = "ErrOut (''failed to resume: cannot parse, fallback to Start()'' @ newline)"
  let ?before = "[GetLogs ''default'' ''web-0'' ?req, Out (''two'' @ newline), ?written,
                  GetLogs ''default'' ''web-0'' ?req]"
  let ?U = "tail0\<lparr>Options := ?opts,
               last_seen := \<lparr>timestamp = ''2024-01-02T03:04:06Z'', lines = 1\<rparr>,
               resumeRequest := Some \<lparr>Timestamp = ''2024-01-02T03:04:05Z'', LinesToSkip = 2\<rparr>,
               effects := [GetLogs ''default'' ''web-0'' ?req, Out (''two'' @ newline)]\<rparr>"
  define T0 where "T0 = ?U\<lparr>effects := ?before\<rparr>"
  have f: "Options T0 = ?opts" "otelEnabled T0 = False" "otelExporter T0 = None"
    "tmpl T0 = tmpl0" "effects T0 = ?before"
    "last_seen T0 = \<lparr>timestamp = ''2024-01-02T03:04:06Z'', lines = 1\<rparr>"
    "resumeRequest T0 = Some \<lparr>Timestamp = ''2024-01-02T03:04:05Z'', LinesToSkip = 2\<rparr>"
    by (simp_all add: T0_def tail0_def NewTail_def)
  have start: "Resume env0 ?U (Some \<lparr>Timestamp = ''2024-01-02T03:04:05'', LinesToSkip = 1\<rparr>)
     = Inr (Some (Err ''connection reset''), foldl (consumeRead env0) T0 reads0)"
    by (simp add: Resume_def sinceTime_def Start_def printStarting_def ConsumeRequest_def
        consumeRead_def [of _ _ "([], 0)"] Fprint_errOut_def
        Let_def T0_def env0_def tail0_def NewTail_def options0_def pod0_def)
  define T1 where "T1 = consumeRead env0 T0 (''2024-01-02T03:04:05.1Z a'' @ newline, 0)"
  define T2 where "T2 = consumeRead env0 T1 (''2024-01-02T03:04:05.2Z b'' @ newline, 0)"
  define T3 where "T3 = consumeRead env0 T2 (''2024-01-02T03:04:05.3Z c'' @ newline, 0)"
  define T4 where "T4 = consumeRead env0 T3 (''2024-01-02T03:04:06.25Z two'' @ newline, 0)"
  have r1: "T1 = T0\<lparr>last_seen := \<lparr>timestamp = ''2024-01-02T03:04:05Z'', lines = 1\<rparr>,
      resumeRequest := Some \<lparr>Timestamp = ''2024-01-02T03:04:05Z'', LinesToSkip = 1\<rparr>\<rparr>"
    unfolding T1_def by (simp add: line_defs f)
  have r2: "T2 = T0\<lparr>last_seen := \<lparr>timestamp = ''2024-01-02T03:04:05Z'', lines = 2\<rparr>,
      resumeRequest := Some \<lparr>Timestamp = ''2024-01-02T03:04:05Z'', LinesToSkip = 0\<rparr>\<rparr>"
    unfolding T2_def r1 by (simp add: line_defs f)
  have r3: "T3 = T0\<lparr>last_seen := \<lparr>timestamp = ''2024-01-02T03:04:05Z'', lines = 3\<rparr>,
      resumeRequest := Some \<lparr>Timestamp = ''2024-01-02T03:04:05Z'', LinesToSkip = 0\<rparr>,
      effects := ?before @ [Out (''c'' @ newline)]\<rparr>"
    unfolding T3_def r2 by (simp add: line_defs f)
  have r4: "T4 = T0\<lparr>last_seen := \<lparr>timestamp = ''2024-01-02T03:04:06Z'', lines = 1\<rparr>,
      resumeRequest := Some \<lparr>Timestamp = ''2024-01-02T03:04:05Z'', LinesToSkip = 0\<rparr>,
      effects := ?before @ [Out (''c'' @ newline), Out (''two'' @ newline)]\<rparr>"
    unfolding T4_def r3 by (simp add: line_defs f)
  have "foldl (consumeRead env0) T0 reads0 = T4"
    by (simp only: reads0_def foldl.simps T1_def T2_def T3_def T4_def)
  then show "Resume env0 ?U (Some \<lparr>Timestamp = ''2024-01-02T03:04:05'', LinesToSkip = 1\<rparr>)
     = Inr (Some (Err ''connection reset''),
            tail0\<lparr>Options := ?opts,
                  last_seen := \<lparr>timestamp = ''2024-01-02T03:04:06Z'', lines = 1\<rparr>,
                  resumeRequest := Some \<lparr>Timestamp = ''2024-01-02T03:04:05Z'', LinesToSkip = 0\<rparr>,
                  effects :=
                    [GetLogs ''default'' ''web-0'' ?req, Out (''two'' @ newline), ?written,
                     GetLogs ''default'' ''web-0'' ?req,
                     Out (''c'' @ newline), Out (''two'' @ newline)]\<rparr>)"
    unfolding start by (simp add: r4 T0_def)
qed

end
